theory Spec2Isabelle
  imports Complex_Main
begin

section \<open>Numbers of the numeric library\<close>

text \<open>
  Every number the strategy computes with is a 64-bit float of the numeric library
  (the closes read from a frame, and everything derived from them). Its arithmetic
  never raises: a division by zero gives an infinity or the not-a-number value, which
  is also what a frame shows as a null. The model keeps these special values and
  computes exactly on the finite ones: rounding and overflow of finite values are not
  modelled, and there is one zero (the sign of a zero is not kept).
\<close>

datatype fval = Fin real | PInf | NInf | NaN

fun isna :: "fval \<Rightarrow> bool" where
  "isna NaN = True"
| "isna _ = False"

fun fneg :: "fval \<Rightarrow> fval" where
  "fneg (Fin a) = Fin (- a)"
| "fneg PInf = NInf"
| "fneg NInf = PInf"
| "fneg NaN = NaN"

fun fadd :: "fval \<Rightarrow> fval \<Rightarrow> fval" where
  "fadd (Fin a) (Fin b) = Fin (a + b)"
| "fadd NaN _ = NaN"
| "fadd _ NaN = NaN"
| "fadd PInf NInf = NaN"
| "fadd NInf PInf = NaN"
| "fadd PInf _ = PInf"
| "fadd NInf _ = NInf"
| "fadd _ PInf = PInf"
| "fadd _ NInf = NInf"

definition fsub :: "fval \<Rightarrow> fval \<Rightarrow> fval" where
  "fsub a b = fadd a (fneg b)"

text \<open>The sign of an infinity times or over a finite number; a zero counts as positive
  in a quotient and gives not-a-number in a product.\<close>

definition signed_inf :: "bool \<Rightarrow> fval" where
  "signed_inf pos = (if pos then PInf else NInf)"

fun fmul :: "fval \<Rightarrow> fval \<Rightarrow> fval" where
  "fmul (Fin a) (Fin b) = Fin (a * b)"
| "fmul NaN _ = NaN"
| "fmul _ NaN = NaN"
| "fmul (Fin a) PInf = (if a = 0 then NaN else signed_inf (0 < a))"
| "fmul (Fin a) NInf = (if a = 0 then NaN else signed_inf (a < 0))"
| "fmul PInf (Fin b) = (if b = 0 then NaN else signed_inf (0 < b))"
| "fmul NInf (Fin b) = (if b = 0 then NaN else signed_inf (b < 0))"
| "fmul PInf PInf = PInf"
| "fmul NInf NInf = PInf"
| "fmul PInf NInf = NInf"
| "fmul NInf PInf = NInf"

fun fdiv :: "fval \<Rightarrow> fval \<Rightarrow> fval" where
  "fdiv (Fin a) (Fin b) =
     (if b = 0 then (if a = 0 then NaN else signed_inf (0 < a)) else Fin (a / b))"
| "fdiv NaN _ = NaN"
| "fdiv _ NaN = NaN"
| "fdiv (Fin a) _ = Fin 0"
| "fdiv PInf (Fin b) = signed_inf (0 \<le> b)"
| "fdiv NInf (Fin b) = signed_inf (b < 0)"
| "fdiv _ _ = NaN"

text \<open>
  Floor division \<open>a // b\<close> of two floats: the floor of the quotient for finite operands,
  the plain quotient \<open>a / b\<close> when \<open>b\<close> is zero, not-a-number for an infinite dividend,
  and \<open>0\<close> or \<open>-1\<close> for a finite dividend over an infinity.
\<close>

fun ffloordiv :: "fval \<Rightarrow> fval \<Rightarrow> fval" where
  "ffloordiv (Fin a) (Fin b) =
     (if b = 0 then fdiv (Fin a) (Fin b) else Fin (of_int \<lfloor>a / b\<rfloor>))"
| "ffloordiv NaN _ = NaN"
| "ffloordiv _ NaN = NaN"
| "ffloordiv (Fin a) PInf = (if a < 0 then Fin (- 1) else Fin 0)"
| "ffloordiv (Fin a) NInf = (if 0 < a then Fin (- 1) else Fin 0)"
| "ffloordiv PInf (Fin b) = (if b = 0 then PInf else NaN)"
| "ffloordiv NInf (Fin b) = (if b = 0 then NInf else NaN)"
| "ffloordiv _ _ = NaN"

text \<open>Comparisons are false as soon as one side is not-a-number.\<close>

fun flt :: "fval \<Rightarrow> fval \<Rightarrow> bool" where
  "flt (Fin a) (Fin b) = (a < b)"
| "flt NaN _ = False"
| "flt _ NaN = False"
| "flt NInf NInf = False"
| "flt NInf _ = True"
| "flt PInf _ = False"
| "flt (Fin a) PInf = True"
| "flt (Fin a) NInf = False"

definition fgt :: "fval \<Rightarrow> fval \<Rightarrow> bool" where
  "fgt a b = flt b a"

fun fle :: "fval \<Rightarrow> fval \<Rightarrow> bool" where
  "fle NaN _ = False"
| "fle _ NaN = False"
| "fle a b = (\<not> flt b a)"

section \<open>Signals, positions and trades (strategy.py)\<close>

datatype side = BUY | SELL

record signal =
  date :: nat
  signal :: side
  price :: fval
  rsi :: fval
  ma20 :: fval
  ma50 :: fval

record position =
  entry_date :: nat
  entry_price :: fval
  ticker :: string
  quantity :: fval

record trade =
  trade_ticker :: string
  trade_entry_date :: nat
  exit_date :: nat
  trade_entry_price :: fval
  exit_price :: fval
  trade_quantity :: fval
  pnl :: fval
  return_pct :: fval

text \<open>
  The object \<open>self\<close> of \<open>TradingStrategy\<close>: the thresholds given to \<open>__init__\<close>
  and the running capital, \<open>100000\<close> at construction. (The attributes
  \<open>self.trades\<close> and \<open>self.position\<close> are set at construction and never read or
  written again; they are left out.)
\<close>

record strategy =
  rsi_oversold :: real
  ma_short :: nat
  ma_long :: nat
  portfolio_value :: fval

definition TradingStrategy :: strategy where
  "TradingStrategy = \<lparr>rsi_oversold = 30, ma_short = 20, ma_long = 50, portfolio_value = Fin 100000\<rparr>"

text \<open>
  The loop of \<open>TradingStrategy.backtest\<close> over the signals: its state is the list
  \<open>trades\<close>, the slot \<open>current_position\<close> (\<open>None\<close> when flat) and \<open>self\<close>,
  whose \<open>portfolio_value\<close> the loop reads and updates.
\<close>

record bt_state =
  trades :: "trade list"
  current_position :: "position option"
  self :: strategy

definition close_position :: "string \<Rightarrow> position \<Rightarrow> signal \<Rightarrow> trade" where
  "close_position tk p sg =
     \<lparr>trade_ticker = tk,
      trade_entry_date = entry_date p,
      exit_date = date sg,
      trade_entry_price = entry_price p,
      exit_price = price sg,
      trade_quantity = quantity p,
      pnl = fmul (fsub (price sg) (entry_price p)) (quantity p),
      return_pct = fmul (fdiv (fsub (price sg) (entry_price p)) (entry_price p)) (Fin 100)\<rparr>"

definition backtest_step :: "string \<Rightarrow> bt_state \<Rightarrow> signal \<Rightarrow> bt_state" where
  "backtest_step tk s sg =
     (if signal sg = BUY \<and> current_position s = None then
        s\<lparr>current_position :=
            Some \<lparr>entry_date = date sg,
                  entry_price = price sg,
                  ticker = tk,
                  quantity = ffloordiv (portfolio_value (self s)) (price sg)\<rparr>\<rparr>
      else if signal sg = SELL \<and> current_position s \<noteq> None then
        (let t = close_position tk (the (current_position s)) sg
         in s\<lparr>trades := trades s @ [t],
              self := (self s)\<lparr>portfolio_value := fadd (portfolio_value (self s)) (pnl t)\<rparr>,
              current_position := None\<rparr>)
      else s)"

fun backtest_loop :: "string \<Rightarrow> bt_state \<Rightarrow> signal list \<Rightarrow> bt_state" where
  "backtest_loop tk s [] = s"
| "backtest_loop tk s (sg # sgs) = backtest_loop tk (backtest_step tk s sg) sgs"

text \<open>The state in which the loop starts: no trade, no position.\<close>

definition loop_start :: "strategy \<Rightarrow> bt_state" where
  "loop_start st = \<lparr>trades = [], current_position = None, self = st\<rparr>"

section \<open>Metrics (strategy.py)\<close>

text \<open>A value of the metrics dictionary is a Python integer or a float.\<close>

datatype pyval = PyInt int | PyFloat fval

fun cumsum_from :: "fval \<Rightarrow> fval list \<Rightarrow> fval list" where
  "cumsum_from acc [] = []"
| "cumsum_from acc (x # xs) = fadd acc x # cumsum_from (fadd acc x) xs"

definition cumsum :: "fval list \<Rightarrow> fval list" where
  "cumsum xs = cumsum_from (Fin 0) xs"

text \<open>The elementwise maximum and minimum of the numeric library give not-a-number
  as soon as one argument is.\<close>

definition fmaximum :: "fval \<Rightarrow> fval \<Rightarrow> fval" where
  "fmaximum a b = (if isna a \<or> isna b then NaN else if flt a b then b else a)"

definition fminimum :: "fval \<Rightarrow> fval \<Rightarrow> fval" where
  "fminimum a b = (if isna a \<or> isna b then NaN else if flt b a then b else a)"

fun maximum_accumulate_from :: "fval \<Rightarrow> fval list \<Rightarrow> fval list" where
  "maximum_accumulate_from m [] = []"
| "maximum_accumulate_from m (x # xs) = fmaximum m x # maximum_accumulate_from (fmaximum m x) xs"

fun maximum_accumulate :: "fval list \<Rightarrow> fval list" where
  "maximum_accumulate [] = []"
| "maximum_accumulate (x # xs) = x # maximum_accumulate_from x xs"

fun np_min :: "fval list \<Rightarrow> fval" where
  "np_min [] = NaN"
| "np_min (x # xs) = foldl fminimum x xs"

definition py_sum :: "fval list \<Rightarrow> fval" where
  "py_sum xs = foldl fadd (Fin 0) xs"

definition np_mean :: "fval list \<Rightarrow> fval" where
  "np_mean xs = fdiv (py_sum xs) (Fin (real (length xs)))"

definition drawdown_of :: "fval list \<Rightarrow> fval list" where
  "drawdown_of pnls =
     (let cumulative_returns = cumsum pnls;
          peak = maximum_accumulate cumulative_returns
      in map (\<lambda>(c, p). fmul (fdiv (fsub c p) p) (Fin 100)) (zip cumulative_returns peak))"

definition calculate_metrics :: "trade list \<Rightarrow> (string \<rightharpoonup> pyval)" where
  "calculate_metrics ts =
     (if ts = [] then
        map_of [(''total_trades'', PyInt 0),
                (''win_rate'', PyInt 0),
                (''total_pnl'', PyInt 0),
                (''avg_return'', PyInt 0),
                (''max_drawdown'', PyInt 0)]
      else
        (let total_trades = length ts;
             winning_trades = length (filter (\<lambda>t. fgt (pnl t) (Fin 0)) ts);
             win_rate = (if total_trades > 0
                         then PyFloat (Fin (real winning_trades / real total_trades * 100))
                         else PyInt 0);
             total_pnl = py_sum (map pnl ts);
             avg_return = np_mean (map return_pct ts);
             drawdown = drawdown_of (map pnl ts);
             max_drawdown = (if length drawdown > 0 then PyFloat (np_min drawdown) else PyInt 0)
         in map_of [(''total_trades'', PyInt (int total_trades)),
                    (''win_rate'', win_rate),
                    (''total_pnl'', PyFloat total_pnl),
                    (''avg_return'', PyFloat avg_return),
                    (''max_drawdown'', max_drawdown),
                    (''winning_trades'', PyInt (int winning_trades)),
                    (''losing_trades'', PyInt (int total_trades - int winning_trades))]))"

section \<open>Frames and the indicator engine (utils.py)\<close>

text \<open>
  A frame is the table the caller hands over: the row labels \<open>Index\<close>, the columns
  \<open>Close\<close> and \<open>Volume\<close> of the price source, which hold finite numbers, and the
  columns that the program adds by name (\<open>data['RSI'] = ...\<close>), which may hold nulls
  and infinities. All columns have the length of \<open>Close\<close>.
\<close>

record frame =
  Index :: "nat list"
  Close :: "real list"
  Volume :: "real list"
  columns :: "string \<rightharpoonup> fval list"

definition len :: "frame \<Rightarrow> nat" where
  "len d = length (Close d)"

definition series :: "real list \<Rightarrow> fval list" where
  "series xs = map Fin xs"

definition set_column :: "string \<Rightarrow> fval list \<Rightarrow> frame \<Rightarrow> frame" where
  "set_column name v d = d\<lparr>columns := (columns d)(name \<mapsto> v)\<rparr>"

definition iloc :: "frame \<Rightarrow> string \<Rightarrow> nat \<Rightarrow> fval" where
  "iloc d c i = the (columns d c) ! i"

text \<open>\<open>Series.diff()\<close>: the first entry has no predecessor and is null.\<close>

definition diff :: "fval list \<Rightarrow> fval list" where
  "diff xs = map (\<lambda>i. if i = 0 then NaN else fsub (xs ! i) (xs ! (i - 1))) [0..<length xs]"

text \<open>\<open>s.where(cond, 0)\<close>: keep the entry where the condition holds, put \<open>0\<close>
  elsewhere, also where the entry is null (a comparison with a null is false).\<close>

definition where_else_0 :: "(fval \<Rightarrow> bool) \<Rightarrow> fval list \<Rightarrow> fval list" where
  "where_else_0 c xs = map (\<lambda>x. if c x then x else Fin 0) xs"

fun is_fin :: "fval \<Rightarrow> bool" where
  "is_fin (Fin a) = True"
| "is_fin _ = False"

fun the_fin :: "fval \<Rightarrow> real" where
  "the_fin (Fin a) = a"
| "the_fin _ = 0"

text \<open>
  \<open>rolling(window=w).mean()\<close>: the window at row \<open>i\<close> is the \<open>w\<close> rows ending at
  \<open>i\<close>. The minimum number of observations is the window itself, so the mean is null
  while fewer than \<open>w\<close> rows exist and whenever the window holds a null (infinities
  count as nulls in a rolling window).
\<close>

definition window :: "nat \<Rightarrow> 'a list \<Rightarrow> nat \<Rightarrow> 'a list" where
  "window w xs i = take w (drop (Suc i - w) xs)"

definition rolling_mean :: "nat \<Rightarrow> fval list \<Rightarrow> fval list" where
  "rolling_mean w xs =
     map (\<lambda>i. if Suc i < w then NaN
              else if list_all is_fin (window w xs i)
                   then Fin (sum_list (map the_fin (window w xs i)) / real w)
                   else NaN)
         [0..<length xs]"

text \<open>\<open>rolling(window=w).std()\<close>: the sample standard deviation of the window.\<close>

definition sample_std :: "real list \<Rightarrow> real" where
  "sample_std win =
     (let m = sum_list win / real (length win)
      in sqrt (sum_list (map (\<lambda>x. (x - m)\<^sup>2) win) / real (length win - 1)))"

definition rolling_std :: "nat \<Rightarrow> real list \<Rightarrow> fval list" where
  "rolling_std w xs =
     map (\<lambda>i. if Suc i < w \<or> w < 2 then NaN else Fin (sample_std (window w xs i)))
         [0..<length xs]"

text \<open>
  \<open>ewm(span=n).mean()\<close> with the library's default weighting: the average of all rows
  up to \<open>t\<close> with weights \<open>(1 - \<alpha>) ^ k\<close> for the row \<open>k\<close> steps back,
  \<open>\<alpha> = 2 / (n + 1)\<close>.
\<close>

definition ewm_at :: "real \<Rightarrow> real list \<Rightarrow> nat \<Rightarrow> real" where
  "ewm_at q xs t =
     sum_list (map (\<lambda>k. q ^ k * xs ! (t - k)) [0..<Suc t]) / sum_list (map (\<lambda>k. q ^ k) [0..<Suc t])"

definition ewm_mean :: "nat \<Rightarrow> real list \<Rightarrow> real list" where
  "ewm_mean n xs = map (ewm_at (1 - 2 / (real n + 1)) xs) [0..<length xs]"

definition calculate_rsi :: "frame \<Rightarrow> nat \<Rightarrow> fval list" where
  "calculate_rsi d period =
     (let delta = diff (series (Close d));
          gain = rolling_mean period (where_else_0 (\<lambda>x. fgt x (Fin 0)) delta);
          loss = rolling_mean period (map fneg (where_else_0 (\<lambda>x. flt x (Fin 0)) delta));
          rs = map2 fdiv gain loss
      in map (\<lambda>r. fsub (Fin 100) (fdiv (Fin 100) (fadd (Fin 1) r))) rs)"

definition calculate_macd :: "frame \<Rightarrow> nat \<Rightarrow> nat \<Rightarrow> nat \<Rightarrow> real list \<times> real list \<times> real list" where
  "calculate_macd d fast slow sig =
     (let exp1 = ewm_mean fast (Close d);
          exp2 = ewm_mean slow (Close d);
          macd = map2 (-) exp1 exp2;
          signal_line = ewm_mean sig macd;
          histogram = map2 (-) macd signal_line
      in (macd, signal_line, histogram))"

definition calculate_moving_averages :: "frame \<Rightarrow> nat \<Rightarrow> nat \<Rightarrow> fval list \<times> fval list" where
  "calculate_moving_averages d short long =
     (rolling_mean short (series (Close d)), rolling_mean long (series (Close d)))"

definition calculate_bollinger_bands :: "frame \<Rightarrow> nat \<Rightarrow> real \<Rightarrow> fval list \<times> fval list \<times> fval list" where
  "calculate_bollinger_bands d period std_dev =
     (let ma = rolling_mean period (series (Close d));
          std = rolling_std period (Close d);
          upper_band = map2 fadd ma (map (\<lambda>s. fmul s (Fin std_dev)) std);
          lower_band = map2 fsub ma (map (\<lambda>s. fmul s (Fin std_dev)) std)
      in (upper_band, ma, lower_band))"

text \<open>
  What \<open>add_technical_indicators\<close> does to the frame object it is given: nine column
  assignments, in the order of the source.
\<close>

definition assign_indicators :: "frame \<Rightarrow> frame" where
  "assign_indicators d0 =
     (let d1 = set_column ''RSI'' (calculate_rsi d0 14) d0;
          (macd, signal_line, histogram) = calculate_macd d1 12 26 9;
          d2 = set_column ''MACD'' (series macd) d1;
          d3 = set_column ''MACD_Signal'' (series signal_line) d2;
          d4 = set_column ''MACD_Histogram'' (series histogram) d3;
          (ma_short, ma_long) = calculate_moving_averages d4 20 50;
          d5 = set_column ''MA20'' ma_short d4;
          d6 = set_column ''MA50'' ma_long d5;
          (upper_band, ma, lower_band) = calculate_bollinger_bands d6 20 2;
          d7 = set_column ''BB_Upper'' upper_band d6;
          d8 = set_column ''BB_Middle'' ma d7
      in set_column ''BB_Lower'' lower_band d8)"

text \<open>
  Frames are objects: a variable holds a reference, and the heap maps references to
  frames. \<open>add_technical_indicators(data)\<close> assigns the columns on the object behind
  \<open>data\<close> and returns the same reference.
\<close>

type_synonym heap = "nat \<Rightarrow> frame"

definition add_technical_indicators :: "nat \<Rightarrow> heap \<Rightarrow> nat \<times> heap" where
  "add_technical_indicators data h = (data, h(data := assign_indicators (h data)))"

section \<open>Signal generation and the backtest (strategy.py)\<close>

definition signal_at :: "strategy \<Rightarrow> frame \<Rightarrow> nat \<Rightarrow> signal list" where
  "signal_at st d i =
     (if flt (iloc d ''RSI'' i) (Fin (rsi_oversold st)) \<and>
         fgt (iloc d ''MA20'' i) (iloc d ''MA50'' i) \<and>
         fle (iloc d ''MA20'' (i - 1)) (iloc d ''MA50'' (i - 1)) \<and>
         \<not> isna (iloc d ''RSI'' i) \<and>
         \<not> isna (iloc d ''MA20'' i) \<and>
         \<not> isna (iloc d ''MA50'' i)
      then [\<lparr>date = Index d ! i, signal = BUY, price = Fin (Close d ! i),
             rsi = iloc d ''RSI'' i, ma20 = iloc d ''MA20'' i, ma50 = iloc d ''MA50'' i\<rparr>]
      else if fgt (iloc d ''RSI'' i) (Fin 70) \<and> \<not> isna (iloc d ''RSI'' i)
      then [\<lparr>date = Index d ! i, signal = SELL, price = Fin (Close d ! i),
             rsi = iloc d ''RSI'' i, ma20 = iloc d ''MA20'' i, ma50 = iloc d ''MA50'' i\<rparr>]
      else [])"

definition generate_signals :: "strategy \<Rightarrow> nat \<Rightarrow> heap \<Rightarrow> signal list \<times> heap" where
  "generate_signals st data0 h0 =
     (let (data, h) = add_technical_indicators data0 h0
      in (concat (map (signal_at st (h data)) [1..<len (h data)]), h))"

definition backtest :: "strategy \<Rightarrow> nat \<Rightarrow> string \<Rightarrow> heap \<Rightarrow> (trade list \<times> signal list) \<times> strategy \<times> heap" where
  "backtest st data tk h0 =
     (let (signals, h) = generate_signals st data h0;
          s = backtest_loop tk (loop_start st) signals
      in ((trades s, signals), self s, h))"

section \<open>Feature preparation and training (ml_model.py)\<close>

text \<open>\<open>pct_change()\<close> is \<open>x / x.shift(1) - 1\<close>; \<open>shift(-1)\<close> moves every entry one
  row up and leaves a null in the last row; \<open>fillna(v)\<close> replaces the nulls.\<close>

definition pct_change :: "real list \<Rightarrow> fval list" where
  "pct_change xs =
     map (\<lambda>i. if i = 0 then NaN else fsub (fdiv (Fin (xs ! i)) (Fin (xs ! (i - 1)))) (Fin 1))
         [0..<length xs]"

definition shift_up :: "fval list \<Rightarrow> fval list" where
  "shift_up xs = map (\<lambda>i. if Suc i < length xs then xs ! Suc i else NaN) [0..<length xs]"

definition fillna :: "real \<Rightarrow> fval list \<Rightarrow> fval list" where
  "fillna v xs = map (\<lambda>x. if isna x then Fin v else x) xs"

text \<open>\<open>(s > 0).astype(int)\<close>: a comparison with a null is false, so a null gives \<open>0\<close>.\<close>

definition gt0_as_int :: "fval list \<Rightarrow> fval list" where
  "gt0_as_int xs = map (\<lambda>x. if fgt x (Fin 0) then Fin 1 else Fin 0) xs"

text \<open>What \<open>prepare_features\<close> assigns on the frame after the indicators.\<close>

definition assign_features :: "frame \<Rightarrow> frame" where
  "assign_features d0 =
     (let d1 = set_column ''Next_Day_Return'' (shift_up (pct_change (Close d0))) d0;
          d2 = set_column ''Target'' (gt0_as_int (the (columns d1 ''Next_Day_Return''))) d1;
          d3 = set_column ''Price_Change'' (pct_change (Close d2)) d2;
          d4 = set_column ''Volume_MA'' (rolling_mean 20 (series (Volume d3))) d3;
          volume_ratio = map2 fdiv (series (Volume d4)) (the (columns d4 ''Volume_MA''))
      in set_column ''Volume_Ratio'' (fillna 1 volume_ratio) d4)"

text \<open>
  The classifiers and the scaler belong to the learning library, which is not part of
  the program. A classifier object is the constructor call that made it (with its
  hyperparameters, the seed last) and its fitted state, \<open>None\<close> until a fit succeeds
  in setting it. The library is a parameter of the model: each of its calls returns a
  value or raises.
\<close>

datatype estimator =
    DecisionTreeClassifier nat nat nat
  | LogisticRegression nat nat
  | RandomForestClassifier nat nat nat

datatype 'm classifier = Classifier estimator "'m option"

datatype py_error = ValueError | AttributeError

datatype log_entry = LogInfo string | LogWarning string | LogError py_error

record ('m, 's) sklearn =
  train_test_split ::
    "fval list list \<Rightarrow> fval list \<Rightarrow>
     py_error + (fval list list \<times> fval list list \<times> fval list \<times> fval list)"
  fit_transform :: "'s \<Rightarrow> fval list list \<Rightarrow> 's \<times> (py_error + fval list list)"
  transform :: "'s \<Rightarrow> fval list list \<Rightarrow> py_error + fval list list"
  fit :: "estimator \<Rightarrow> 'm option \<Rightarrow> fval list list \<Rightarrow> fval list \<Rightarrow> 'm option \<times> (py_error + unit)"
  predict :: "estimator \<Rightarrow> 'm option \<Rightarrow> fval list list \<Rightarrow> py_error + fval list"
  accuracy_score :: "fval list \<Rightarrow> fval list \<Rightarrow> py_error + real"
  classification_report :: "fval list \<Rightarrow> fval list \<Rightarrow> py_error + string"

record ('m, 's) predictor =
  model_type :: string
  model :: "'m classifier option"
  scaler :: 's
  feature_columns :: "string list"
  accuracy :: real

text \<open>\<open>MLPredictor.__init__\<close>, given the fresh scaler object.\<close>

definition MLPredictor :: "string \<Rightarrow> 's \<Rightarrow> ('m, 's) predictor" where
  "MLPredictor mt sc =
     \<lparr>model_type = mt, model = None, scaler = sc,
      feature_columns = [''RSI'', ''MACD'', ''Volume'', ''MA20'', ''MA50'', ''BB_Upper'', ''BB_Lower''],
      accuracy = 0\<rparr>"

definition prepare_features ::
  "('m, 's) predictor \<Rightarrow> nat \<Rightarrow> heap \<Rightarrow> nat \<times> ('m, 's) predictor \<times> heap" where
  "prepare_features p data0 h0 =
     (let (data, h1) = add_technical_indicators data0 h0;
          h2 = h1(data := assign_features (h1 data))
      in (data,
          p\<lparr>feature_columns := [''RSI'', ''MACD'', ''Volume_Ratio'', ''MA20'', ''MA50'',
                                ''Price_Change'', ''MACD_Histogram'']\<rparr>,
          h2))"

text \<open>\<open>data[cols].dropna()\<close>: the rows of the selected columns, without every row
  that holds a null; it is given by the positions of the rows it keeps.\<close>

definition row :: "frame \<Rightarrow> string list \<Rightarrow> nat \<Rightarrow> fval list" where
  "row d cs i = map (\<lambda>c. iloc d c i) cs"

definition dropna :: "frame \<Rightarrow> string list \<Rightarrow> nat list" where
  "dropna d cs = filter (\<lambda>i. \<not> list_ex isna (row d cs i)) [0..<len d]"

text \<open>The chain \<open>if / elif / elif\<close> on the model type; an unknown type assigns nothing.\<close>

definition new_model :: "string \<Rightarrow> 'm classifier option \<Rightarrow> 'm classifier option" where
  "new_model mt old =
     (if mt = ''DecisionTree'' then Some (Classifier (DecisionTreeClassifier 10 5 42) None)
      else if mt = ''LogisticRegression'' then Some (Classifier (LogisticRegression 42 1000) None)
      else if mt = ''RandomForest'' then Some (Classifier (RandomForestClassifier 100 10 42) None)
      else old)"

text \<open>The second half of \<open>train_model\<close>, from \<open>self.model.fit\<close> on. Calling \<open>fit\<close> on
  \<open>None\<close> raises; every exception ends in the handler, which logs it and returns
  \<open>False\<close>.\<close>

definition fit_and_score ::
  "('m, 's) sklearn \<Rightarrow> ('m, 's) predictor \<Rightarrow> fval list list \<Rightarrow> fval list list \<Rightarrow>
   fval list list \<Rightarrow> fval list list \<Rightarrow> fval list \<Rightarrow> fval list \<Rightarrow>
   (bool \<times> log_entry list) \<times> ('m, 's) predictor" where
  "fit_and_score lib p X_train X_test X_train_scaled X_test_scaled y_train y_test =
     (case model p of
        None \<Rightarrow> ((False, [LogError AttributeError]), p)
      | Some (Classifier est m0) \<Rightarrow>
          (let (Xa, Xb) = (if model_type p = ''LogisticRegression''
                           then (X_train_scaled, X_test_scaled) else (X_train, X_test));
               (m1, r) = fit lib est m0 Xa y_train;
               p1 = p\<lparr>model := Some (Classifier est m1)\<rparr>
           in case r of
                Inl e \<Rightarrow> ((False, [LogError e]), p1)
              | Inr _ \<Rightarrow>
                 (case predict lib est m1 Xb of
                    Inl e \<Rightarrow> ((False, [LogError e]), p1)
                  | Inr y_pred \<Rightarrow>
                     (case accuracy_score lib y_test y_pred of
                        Inl e \<Rightarrow> ((False, [LogError e]), p1)
                      | Inr acc \<Rightarrow>
                         (let p2 = p1\<lparr>accuracy := acc\<rparr>
                          in case classification_report lib y_test y_pred of
                               Inl e \<Rightarrow>
                                 ((False, [LogInfo ''Model trained successfully'', LogError e]), p2)
                             | Inr rep \<Rightarrow>
                                 ((True, [LogInfo ''Model trained successfully'', LogInfo rep]), p2))))))"

text \<open>The table \<open>X, y\<close> that \<open>train_model\<close> cuts out of the prepared frame.\<close>

definition training_table :: "frame \<Rightarrow> string list \<Rightarrow> fval list list \<times> fval list" where
  "training_table d fc =
     (let clean_data = dropna d (fc @ [''Target''])
      in (map (row d fc) clean_data, map (iloc d ''Target'') clean_data))"

definition train_model ::
  "('m, 's) sklearn \<Rightarrow> ('m, 's) predictor \<Rightarrow> nat \<Rightarrow> heap \<Rightarrow>
   (bool \<times> log_entry list) \<times> ('m, 's) predictor \<times> heap" where
  "train_model lib p0 data0 h0 =
     (let (data, p1, h) = prepare_features p0 data0 h0;
          clean_data = dropna (h data) (feature_columns p1 @ [''Target''])
      in if length clean_data < 50
         then ((False, [LogWarning ''Insufficient data for training'']), p1, h)
         else
           (let (X, y) = training_table (h data) (feature_columns p1)
            in case train_test_split lib X y of
                 Inl e \<Rightarrow> ((False, [LogError e]), p1, h)
               | Inr (X_train, X_test, y_train, y_test) \<Rightarrow>
                   (let (sc, r) = fit_transform lib (scaler p1) X_train;
                        p2 = p1\<lparr>scaler := sc\<rparr>
                    in case r of
                         Inl e \<Rightarrow> ((False, [LogError e]), p2, h)
                       | Inr X_train_scaled \<Rightarrow>
                          (case transform lib sc X_test of
                             Inl e \<Rightarrow> ((False, [LogError e]), p2, h)
                           | Inr X_test_scaled \<Rightarrow>
                              (let p3 = p2\<lparr>model := new_model (model_type p2) (model p2)\<rparr>;
                                   (res, p4) = fit_and_score lib p3 X_train X_test
                                                 X_train_scaled X_test_scaled y_train y_test
                               in (res, p4, h))))))"

section \<open>Notions of the design\<close>

text \<open>
  The design describes the backtester as a machine with the states \<open>FLAT\<close> and
  \<open>LONG\<close>: a buy takes \<open>FLAT\<close> to \<open>LONG\<close>, a sell takes \<open>LONG\<close> to \<open>FLAT\<close>, and
  the other two combinations change nothing. \<open>state_of\<close> reads the machine state off
  the loop state; \<open>opened\<close> counts the steps of a run at which a position is opened,
  and \<open>open_now\<close> the positions open in a state.
\<close>

datatype machine_state = FLAT | LONG

fun machine :: "machine_state \<Rightarrow> side \<Rightarrow> machine_state" where
  "machine FLAT BUY = LONG"
| "machine LONG SELL = FLAT"
| "machine LONG BUY = LONG"
| "machine FLAT SELL = FLAT"

definition state_of :: "bt_state \<Rightarrow> machine_state" where
  "state_of s = (if current_position s = None then FLAT else LONG)"

fun opened :: "string \<Rightarrow> bt_state \<Rightarrow> signal list \<Rightarrow> nat" where
  "opened tk s [] = 0"
| "opened tk s (sg # sgs) =
     (if state_of s = FLAT \<and> state_of (backtest_step tk s sg) = LONG then 1 else 0)
     + opened tk (backtest_step tk s sg) sgs"

definition open_now :: "bt_state \<Rightarrow> nat" where
  "open_now s = (if state_of s = LONG then 1 else 0)"

text \<open>Rounding a quotient toward zero, as the design words the share count.\<close>

definition truncate_toward_zero :: "real \<Rightarrow> int" where
  "truncate_toward_zero r = (if 0 \<le> r then \<lfloor>r\<rfloor> else \<lceil>r\<rceil>)"

text \<open>
  The drawdown in the words of the design: the cumulative profit after trade \<open>i\<close> is the
  sum of the first \<open>i + 1\<close> profits, and the running peak is the largest cumulative
  profit seen up to there.
\<close>

definition cumulative :: "fval list \<Rightarrow> nat \<Rightarrow> fval" where
  "cumulative pnls i = py_sum (take (Suc i) pnls)"

fun np_max :: "fval list \<Rightarrow> fval" where
  "np_max [] = NaN"
| "np_max (x # xs) = foldl fmaximum x xs"

definition running_peak :: "fval list \<Rightarrow> nat \<Rightarrow> fval" where
  "running_peak pnls i = np_max (map (cumulative pnls) [0..<Suc i])"

text \<open>Two columns agree up to row \<open>t\<close>: both have a row \<open>t\<close>, and they hold the same
  values in the rows \<open>0\<close> to \<open>t\<close>. What they hold later is free.\<close>

definition agree_upto :: "nat \<Rightarrow> 'a list \<Rightarrow> 'a list \<Rightarrow> bool" where
  "agree_upto t xs ys \<longleftrightarrow> t < length xs \<and> t < length ys \<and> take (Suc t) xs = take (Suc t) ys"

text \<open>A frame is well formed when its columns have the length of \<open>Close\<close>.\<close>

definition wf_frame :: "frame \<Rightarrow> bool" where
  "wf_frame d \<longleftrightarrow> length (Volume d) = length (Close d) \<and> length (Index d) = length (Close d)"

section \<open>Names for intermediate values of the program\<close>

text \<open>
  What \<open>calculate_rsi\<close> computes on the way: its rolling averages \<open>gain\<close> and \<open>loss\<close>,
  and the gain and the loss of one bar as real numbers (row \<open>0\<close> has no predecessor:
  its null delta is replaced by \<open>0\<close> on both sides).
\<close>

definition avg_gain :: "frame \<Rightarrow> nat \<Rightarrow> fval list" where
  "avg_gain d period =
     rolling_mean period (where_else_0 (\<lambda>x. fgt x (Fin 0)) (diff (series (Close d))))"

definition avg_loss :: "frame \<Rightarrow> nat \<Rightarrow> fval list" where
  "avg_loss d period =
     rolling_mean period (map fneg (where_else_0 (\<lambda>x. flt x (Fin 0)) (diff (series (Close d)))))"

definition gain_at :: "frame \<Rightarrow> nat \<Rightarrow> real" where
  "gain_at d j = (if j = 0 then 0 else max 0 (Close d ! j - Close d ! (j - 1)))"

definition loss_at :: "frame \<Rightarrow> nat \<Rightarrow> real" where
  "loss_at d j = (if j = 0 then 0 else max 0 (Close d ! (j - 1) - Close d ! j))"

text \<open>The frame object after \<open>prepare_features\<close>, and the names of the columns that
  \<open>add_technical_indicators\<close> and \<open>prepare_features\<close> assign.\<close>

definition prepared :: "frame \<Rightarrow> frame" where
  "prepared d = assign_features (assign_indicators d)"

definition indicator_names :: "string list" where
  "indicator_names =
     [''RSI'', ''MACD'', ''MACD_Signal'', ''MACD_Histogram'', ''MA20'', ''MA50'',
      ''BB_Upper'', ''BB_Middle'', ''BB_Lower'']"

definition feature_names :: "string list" where
  "feature_names = [''Next_Day_Return'', ''Target'', ''Price_Change'', ''Volume_MA'', ''Volume_Ratio'']"

text \<open>The split or the scaling raises: the part of \<open>train_model\<close> that runs, on the
  table cut out of the prepared frame \<open>d\<close>, before a classifier is constructed.\<close>

definition raises_before_fit :: "('m, 's) sklearn \<Rightarrow> ('m, 's) predictor \<Rightarrow> frame \<Rightarrow> bool" where
  "raises_before_fit lib p d =
     (let (X, y) = training_table d [''RSI'', ''MACD'', ''Volume_Ratio'', ''MA20'', ''MA50'',
                                     ''Price_Change'', ''MACD_Histogram'']
      in case train_test_split lib X y of
           Inl e \<Rightarrow> True
         | Inr (X_train, X_test, y_train, y_test) \<Rightarrow>
             (case fit_transform lib (scaler p) X_train of
                (sc, Inl e) \<Rightarrow> True
              | (sc, Inr X_train_scaled) \<Rightarrow>
                  (case transform lib sc X_test of Inl e \<Rightarrow> True | Inr _ \<Rightarrow> False)))"

section \<open>Example inputs\<close>

definition example_signal :: "side \<Rightarrow> nat \<Rightarrow> real \<Rightarrow> signal" where
  "example_signal k t x =
     \<lparr>date = t, signal = k, price = Fin x, rsi = Fin 50, ma20 = Fin x, ma50 = Fin x\<rparr>"

definition example_trade :: "real \<Rightarrow> real \<Rightarrow> trade" where
  "example_trade entry exit =
     \<lparr>trade_ticker = ''TCS.NS'', trade_entry_date = 1, exit_date = 2,
      trade_entry_price = Fin entry, exit_price = Fin exit, trade_quantity = Fin 10,
      pnl = Fin ((exit - entry) * 10), return_pct = Fin ((exit - entry) / entry * 100)\<rparr>"

text \<open>A frame as the price source hands it over, with no derived column; sixty closes
  rising by one from \<open>100\<close> to \<open>159\<close>, sixty equal closes, and a hundred closes falling
  by one from \<open>200\<close> to \<open>101\<close>.\<close>

definition new_frame :: "real list \<Rightarrow> real list \<Rightarrow> frame" where
  "new_frame closes volumes =
     \<lparr>Index = [0..<length closes], Close = closes, Volume = volumes, columns = Map.empty\<rparr>"

definition rising_frame :: frame where
  "rising_frame = new_frame (map real [100..<160]) (replicate 60 1000)"

definition flat_frame :: frame where
  "flat_frame = new_frame (replicate 60 100) (replicate 60 1000)"

definition falling_frame :: frame where
  "falling_frame = new_frame (map (\<lambda>j. 200 - real j) [0..<100]) (replicate 100 1000)"

text \<open>
  A small stand-in for the learning library. It splits 70/30 without shuffling, scales
  by the identity and counts the fits of the scaler, predicts the label \<open>0\<close>, and, like
  the logistic regression of the library, refuses to fit a training set whose labels
  are all of one class. \<open>split_fails\<close> is the same library with a split that raises, as
  the real one does when a class has a single member.
\<close>

definition single_class :: "fval list \<Rightarrow> bool" where
  "single_class ys \<longleftrightarrow> list_all (\<lambda>v. v = Fin 0) ys \<or> list_all (\<lambda>v. v = Fin 1) ys"

fun is_logistic :: "estimator \<Rightarrow> bool" where
  "is_logistic (LogisticRegression _ _) = True"
| "is_logistic _ = False"

definition demo_sklearn :: "(nat, nat) sklearn" where
  "demo_sklearn =
     \<lparr>train_test_split =
        (\<lambda>X y. let k = length X - (3 * length X + 9) div 10
               in Inr (take k X, drop k X, take k y, drop k y)),
      fit_transform = (\<lambda>s X. (Suc s, Inr X)),
      transform = (\<lambda>s X. Inr X),
      fit = (\<lambda>est m X y. if is_logistic est \<and> single_class y then (m, Inl ValueError)
                           else (Some (length X), Inr ())),
      predict = (\<lambda>est m X. case m of None \<Rightarrow> Inl ValueError
                                     | Some _ \<Rightarrow> Inr (map (\<lambda>_. Fin 0) X)),
      accuracy_score =
        (\<lambda>y y'. Inr (real (length (filter (\<lambda>(a, b). a = b) (zip y y'))) / real (length y))),
      classification_report = (\<lambda>y y'. Inr '''')\<rparr>"

definition split_fails :: "(nat, nat) sklearn" where
  "split_fails = demo_sklearn\<lparr>train_test_split := (\<lambda>X y. Inl ValueError)\<rparr>"

text \<open>A predictor that an earlier call has trained.\<close>

definition trained_predictor :: "(nat, nat) predictor" where
  "trained_predictor =
     \<lparr>model_type = ''LogisticRegression'',
      model = Some (Classifier (LogisticRegression 42 1000) (Some 35)),
      scaler = 1,
      feature_columns = [''RSI'', ''MACD'', ''Volume_Ratio'', ''MA20'', ''MA50'',
                         ''Price_Change'', ''MACD_Histogram''],
      accuracy = 3 / 4\<rparr>"

section \<open>The backtest loop holds one position at a time\<close>

lemma step_machine: "state_of (backtest_step tk s sg) = machine (state_of s) (signal sg)"
  by (cases "signal sg") (auto simp: backtest_step_def state_of_def Let_def)

lemma step_trades:
  "trades (backtest_step tk s sg) =
     trades s @ (if state_of s = LONG \<and> signal sg = SELL
                 then [close_position tk (the (current_position s)) sg] else [])"
  by (cases "signal sg") (auto simp: backtest_step_def state_of_def Let_def)

lemma step_noop: "machine (state_of s) (signal sg) = state_of s \<Longrightarrow> backtest_step tk s sg = s"
  by (cases "signal sg") (auto simp: backtest_step_def state_of_def Let_def split: if_splits)

text \<open>Every position that a run opens is either closed into a trade or still open at
  the end: the bookkeeping of one step, carried through the loop by induction.\<close>

lemma opened_balance:
  "opened tk s sgs + length (trades s) + open_now s
     = length (trades (backtest_loop tk s sgs)) + open_now (backtest_loop tk s sgs)"
proof (induction sgs arbitrary: s)
  case Nil
  then show ?case by simp
next
  case (Cons sg sgs)
  have step: "(if state_of s = FLAT \<and> state_of (backtest_step tk s sg) = LONG then 1 else 0)
      + length (trades s) + open_now s
      = length (trades (backtest_step tk s sg)) + open_now (backtest_step tk s sg)"
    by (cases "signal sg"; cases "state_of s")
       (simp_all add: step_machine step_trades open_now_def)
  show ?case using Cons.IH [of "backtest_step tk s sg"] step by simp
qed

text \<open>Three signals of which the last two are a buy and a sell: whatever the first
  one is, the run ends with the single trade that the sell closes.\<close>

lemma three_signals:
  "signal b = BUY \<Longrightarrow> signal x = SELL \<Longrightarrow>
   trades (backtest_loop tk (loop_start st) [a, b, x]) =
     [close_position tk
        \<lparr>entry_date = date (if signal a = BUY then a else b),
         entry_price = price (if signal a = BUY then a else b),
         ticker = tk,
         quantity = ffloordiv (portfolio_value st) (price (if signal a = BUY then a else b))\<rparr> x]"
  by (cases "signal a") (simp_all add: backtest_step_def loop_start_def Let_def)

text \<open>
  C1. One step of the loop moves the position slot as the machine of the design says,
  and appends exactly one trade when a sell meets an open position and nothing
  otherwise; a buy while long and a sell while flat leave the whole state as it was.
  The sequences buy, buy, sell and sell, buy, sell (any first signal followed by a buy
  and a sell) yield exactly one trade. Over a whole run from the start state, the
  positions opened are the trades plus the position still open at the end, which is at
  most one: an open position at the end is in no trade.
\<close>

theorem backtest_single_position:
  "state_of (backtest_step tk s sg) = machine (state_of s) (signal sg) \<and>
   trades (backtest_step tk s sg) =
     trades s @ (if state_of s = LONG \<and> signal sg = SELL
                 then [close_position tk (the (current_position s)) sg] else []) \<and>
   (machine (state_of s) (signal sg) = state_of s \<longrightarrow> backtest_step tk s sg = s) \<and>
   (signal b = BUY \<and> signal x = SELL \<longrightarrow>
      length (trades (backtest_loop tk (loop_start st) [a, b, x])) = 1) \<and>
   opened tk (loop_start st) sgs =
     length (trades (backtest_loop tk (loop_start st) sgs))
     + open_now (backtest_loop tk (loop_start st) sgs) \<and>
   open_now (backtest_loop tk (loop_start st) sgs) \<le> 1"
proof -
  have "opened tk (loop_start st) sgs + length (trades (loop_start st)) + open_now (loop_start st)
      = length (trades (backtest_loop tk (loop_start st) sgs))
        + open_now (backtest_loop tk (loop_start st) sgs)"
    by (rule opened_balance)
  then have bal: "opened tk (loop_start st) sgs =
     length (trades (backtest_loop tk (loop_start st) sgs))
     + open_now (backtest_loop tk (loop_start st) sgs)"
    by (simp add: loop_start_def open_now_def state_of_def)
  have three: "signal b = BUY \<and> signal x = SELL \<longrightarrow>
      length (trades (backtest_loop tk (loop_start st) [a, b, x])) = 1"
    by (simp add: three_signals del: backtest_loop.simps)
  have le: "open_now (backtest_loop tk (loop_start st) sgs) \<le> 1"
    by (simp add: open_now_def)
  from step_machine step_trades step_noop three bal le show ?thesis
    by blast
qed

theorem backtest_single_position_witness:
  "length (trades (backtest_loop ''TCS.NS'' (loop_start TradingStrategy)
      [example_signal BUY 1 100, example_signal BUY 2 90, example_signal SELL 3 120])) = 1 \<and>
   length (trades (backtest_loop ''TCS.NS'' (loop_start TradingStrategy)
      [example_signal SELL 1 100, example_signal BUY 2 90, example_signal SELL 3 120])) = 1"
  using backtest_single_position [of "''TCS.NS''" "loop_start TradingStrategy"
          "example_signal BUY 1 100" "example_signal BUY 2 90" "example_signal SELL 3 120"
          TradingStrategy "example_signal BUY 1 100" "[]"]
    backtest_single_position [of "''TCS.NS''" "loop_start TradingStrategy"
          "example_signal BUY 1 100" "example_signal BUY 2 90" "example_signal SELL 3 120"
          TradingStrategy "example_signal SELL 1 100" "[]"]
  by (simp add: example_signal_def)

section \<open>The quantity of a position\<close>

lemma buy_opens:
  "signal sg = BUY \<Longrightarrow> current_position s = None \<Longrightarrow>
   current_position (backtest_step tk s sg) =
     Some \<lparr>entry_date = date sg, entry_price = price sg, ticker = tk,
           quantity = ffloordiv (portfolio_value (self s)) (price sg)\<rparr>"
  by (simp add: backtest_step_def)

text \<open>
  C3, as the code has it. A buy that meets no open position always opens one, and its
  quantity is \<open>capital // price\<close>. For a finite capital and a finite price other than
  zero that is the floor of the quotient, which is the quotient truncated toward zero
  when capital is not negative and the price is positive, \<open>0\<close> when the capital is
  zero, and a negative number when the capital is positive and the price is negative.
  Nothing guards the division: with a float price of zero the quantity is the float
  quotient by zero, which is not a finite number. No input makes the computation raise
  (it is a total function of the floats).
\<close>

theorem buy_quantity:
  assumes "signal sg = BUY" and "current_position s = None"
  shows "\<exists>p. current_position (backtest_step tk s sg) = Some p \<and>
           quantity p = ffloordiv (portfolio_value (self s)) (price sg) \<and>
           (\<forall>c x. portfolio_value (self s) = Fin c \<and> price sg = Fin x \<and> x \<noteq> 0 \<longrightarrow>
                  quantity p = Fin (of_int \<lfloor>c / x\<rfloor>)) \<and>
           (\<forall>c x. portfolio_value (self s) = Fin c \<and> price sg = Fin x \<and> 0 \<le> c \<and> 0 < x \<longrightarrow>
                  quantity p = Fin (of_int (truncate_toward_zero (c / x)))) \<and>
           (\<forall>x. portfolio_value (self s) = Fin 0 \<and> price sg = Fin x \<and> x \<noteq> 0 \<longrightarrow>
                  quantity p = Fin 0) \<and>
           (\<forall>c x. portfolio_value (self s) = Fin c \<and> price sg = Fin x \<and> 0 < c \<and> x < 0 \<longrightarrow>
                  (\<exists>q. quantity p = Fin q \<and> q < 0)) \<and>
           (\<forall>c. portfolio_value (self s) = Fin c \<and> price sg = Fin 0 \<longrightarrow>
                  quantity p = fdiv (Fin c) (Fin 0) \<and> \<not> is_fin (quantity p))"
proof -
  let ?p = "\<lparr>entry_date = date sg, entry_price = price sg, ticker = tk,
             quantity = ffloordiv (portfolio_value (self s)) (price sg)\<rparr>"
  have opened: "current_position (backtest_step tk s sg) = Some ?p"
    using assms by (rule buy_opens)
  have trunc: "\<forall>c x. portfolio_value (self s) = Fin c \<and> price sg = Fin x \<and> 0 \<le> c \<and> 0 < x \<longrightarrow>
                  quantity ?p = Fin (of_int (truncate_toward_zero (c / x)))"
    by (simp add: truncate_toward_zero_def)
  have negative: "\<forall>c x. portfolio_value (self s) = Fin c \<and> price sg = Fin x \<and> 0 < c \<and> x < 0 \<longrightarrow>
                  (\<exists>q. quantity ?p = Fin q \<and> q < 0)"
  proof (intro allI impI)
    fix c x :: real
    assume h: "portfolio_value (self s) = Fin c \<and> price sg = Fin x \<and> 0 < c \<and> x < 0"
    then have "c / x < 0" by (simp add: divide_pos_neg)
    then have "\<lfloor>c / x\<rfloor> < 0" by (simp add: floor_less_iff)
    then have "real_of_int \<lfloor>c / x\<rfloor> < 0" by simp
    moreover from h have "quantity ?p = Fin (of_int \<lfloor>c / x\<rfloor>)" by simp
    ultimately show "\<exists>q. quantity ?p = Fin q \<and> q < 0" by blast
  qed
  have zero_price: "\<forall>c. portfolio_value (self s) = Fin c \<and> price sg = Fin 0 \<longrightarrow>
                  quantity ?p = fdiv (Fin c) (Fin 0) \<and> \<not> is_fin (quantity ?p)"
    by (simp add: signed_inf_def)
  have "quantity ?p = ffloordiv (portfolio_value (self s)) (price sg) \<and>
        (\<forall>c x. portfolio_value (self s) = Fin c \<and> price sg = Fin x \<and> x \<noteq> 0 \<longrightarrow>
                  quantity ?p = Fin (of_int \<lfloor>c / x\<rfloor>)) \<and>
        (\<forall>x. portfolio_value (self s) = Fin 0 \<and> price sg = Fin x \<and> x \<noteq> 0 \<longrightarrow>
                  quantity ?p = Fin 0)"
    by simp
  with opened trunc negative zero_price show ?thesis by blast
qed

theorem buy_quantity_witness:
  "\<exists>p. current_position (backtest_step ''TCS.NS'' (loop_start TradingStrategy)
            (example_signal BUY 1 300)) = Some p \<and>
       quantity p = Fin 333"
proof -
  have "signal (example_signal BUY 1 300) = BUY"
    and "current_position (loop_start TradingStrategy) = None"
    and "portfolio_value (self (loop_start TradingStrategy)) = Fin 100000"
    and "price (example_signal BUY 1 300) = Fin 300"
    by (simp_all add: example_signal_def loop_start_def TradingStrategy_def)
  moreover have "\<lfloor>100000 / 300 :: real\<rfloor> = 333" by simp
  ultimately show ?thesis
    using buy_quantity [of "example_signal BUY 1 300" "loop_start TradingStrategy" "''TCS.NS''"]
    by fastforce
qed

text \<open>
  The claim that a degenerate input gives quantity \<open>0\<close> and opens nothing fails: a
  negative price opens a position with a negative quantity, and with zero capital the
  quantity is \<open>0\<close> but the position is opened all the same, so that the next sell
  closes it into a trade.
\<close>

theorem degenerate_buy_counterexample:
  "current_position (backtest_step ''TCS.NS'' (loop_start TradingStrategy)
      (example_signal BUY 1 (- 5))) =
     Some \<lparr>entry_date = 1, entry_price = Fin (- 5), ticker = ''TCS.NS'', quantity = Fin (- 20000)\<rparr> \<and>
   current_position (backtest_step ''TCS.NS''
      (loop_start (TradingStrategy\<lparr>portfolio_value := Fin 0\<rparr>)) (example_signal BUY 1 50)) =
     Some \<lparr>entry_date = 1, entry_price = Fin 50, ticker = ''TCS.NS'', quantity = Fin 0\<rparr> \<and>
   length (trades (backtest_loop ''TCS.NS'' (loop_start (TradingStrategy\<lparr>portfolio_value := Fin 0\<rparr>))
      [example_signal BUY 1 50, example_signal SELL 2 60])) = 1"
  by (simp add: backtest_step_def loop_start_def TradingStrategy_def example_signal_def Let_def)

section \<open>Metrics of a trade list\<close>

text \<open>
  C5. For the empty trade list the function returns at once, with no division: the
  dictionary holds \<open>total_trades\<close>, \<open>win_rate\<close>, \<open>total_pnl\<close>, \<open>avg_return\<close> and
  \<open>max_drawdown\<close>, all \<open>0\<close>, but it has no entry \<open>winning_trades\<close> and no entry
  \<open>losing_trades\<close>, which the branch for a non-empty list does return.
\<close>

theorem empty_metrics_lack_counts:
  "calculate_metrics [] ''total_trades'' = Some (PyInt 0) \<and>
   calculate_metrics [] ''win_rate'' = Some (PyInt 0) \<and>
   calculate_metrics [] ''total_pnl'' = Some (PyInt 0) \<and>
   calculate_metrics [] ''avg_return'' = Some (PyInt 0) \<and>
   calculate_metrics [] ''max_drawdown'' = Some (PyInt 0) \<and>
   calculate_metrics [] ''winning_trades'' = None \<and>
   calculate_metrics [] ''losing_trades'' = None"
  by (simp add: calculate_metrics_def)

lemma nonempty_metrics_have_counts:
  "ts \<noteq> [] \<Longrightarrow>
   calculate_metrics ts ''winning_trades'' =
     Some (PyInt (int (length (filter (\<lambda>t. fgt (pnl t) (Fin 0)) ts)))) \<and>
   calculate_metrics ts ''losing_trades'' =
     Some (PyInt (int (length ts) - int (length (filter (\<lambda>t. fgt (pnl t) (Fin 0)) ts))))"
  by (simp add: calculate_metrics_def Let_def)

lemma length_cumsum_from: "length (cumsum_from a xs) = length xs"
  by (induction xs arbitrary: a) auto

lemma length_max_acc_from: "length (maximum_accumulate_from a xs) = length xs"
  by (induction xs arbitrary: a) auto

lemma length_max_acc: "length (maximum_accumulate xs) = length xs"
  by (cases xs) (auto simp: length_max_acc_from)

lemma cumsum_from_nth: "i < length xs \<Longrightarrow> cumsum_from a xs ! i = foldl fadd a (take (Suc i) xs)"
proof (induction xs arbitrary: a i)
  case Nil then show ?case by simp
next
  case (Cons x xs)
  show ?case
  proof (cases i)
    case 0 then show ?thesis by simp
  next
    case (Suc j)
    with Cons.prems have "j < length xs" by simp
    from Cons.IH [OF this, of "fadd a x"] Suc show ?thesis by simp
  qed
qed

lemma cumsum_nth: "i < length xs \<Longrightarrow> cumsum xs ! i = cumulative xs i"
  by (simp add: cumsum_def cumulative_def py_sum_def cumsum_from_nth)

lemma max_acc_from_nth: "i < length ys \<Longrightarrow> maximum_accumulate_from m ys ! i = foldl fmaximum m (take (Suc i) ys)"
proof (induction ys arbitrary: m i)
  case Nil then show ?case by simp
next
  case (Cons y ys)
  show ?case
  proof (cases i)
    case 0 then show ?thesis by simp
  next
    case (Suc j)
    with Cons.prems have "j < length ys" by simp
    from Cons.IH [OF this, of "fmaximum m y"] Suc show ?thesis by simp
  qed
qed

lemma max_acc_nth:
  assumes "i < length ys"
  shows "maximum_accumulate ys ! i = np_max (take (Suc i) ys)"
proof (cases ys)
  case Nil
  with assms show ?thesis by simp
next
  case (Cons y ys')
  with assms show ?thesis by (cases i) (simp_all add: max_acc_from_nth)
qed

lemma length_cumsum: "length (cumsum xs) = length xs"
  by (simp add: cumsum_def length_cumsum_from)

lemma take_cumsum:
  assumes "i < length xs"
  shows "take (Suc i) (cumsum xs) = map (cumulative xs) [0..<Suc i]"
proof (rule nth_equalityI)
  show "length (take (Suc i) (cumsum xs)) = length (map (cumulative xs) [0..<Suc i])"
    using assms by (simp add: length_cumsum)
next
  fix j
  assume "j < length (take (Suc i) (cumsum xs))"
  then have j: "j < Suc i" "j < length xs" using assms by (simp_all add: length_cumsum)
  have "map (cumulative xs) [0..<Suc i] ! j = cumulative xs ([0..<Suc i] ! j)"
    using j by (intro nth_map) simp
  also have "\<dots> = cumulative xs j" using j by (simp del: upt_Suc)
  finally show "take (Suc i) (cumsum xs) ! j = map (cumulative xs) [0..<Suc i] ! j"
    using j by (simp add: cumsum_nth del: upt_Suc)
qed

lemma peak_nth: "i < length xs \<Longrightarrow> maximum_accumulate (cumsum xs) ! i = running_peak xs i"
  by (simp add: max_acc_nth length_cumsum take_cumsum running_peak_def del: upt_Suc)

lemma length_drawdown: "length (drawdown_of xs) = length xs"
  by (simp add: drawdown_of_def Let_def length_max_acc length_cumsum)

lemma drawdown_nth: "i < length xs \<Longrightarrow> drawdown_of xs ! i =
   fmul (fdiv (fsub (cumulative xs i) (running_peak xs i)) (running_peak xs i)) (Fin 100)"
  using cumsum_nth[of i xs] peak_nth[of i xs]
  by (simp add: drawdown_of_def Let_def length_max_acc length_cumsum)

lemma np_max_snoc: "ys \<noteq> [] \<Longrightarrow> np_max (ys @ [b]) = fmaximum (np_max ys) b"
  by (cases ys) simp_all

lemma running_peak_Suc:
  "running_peak xs (Suc i) = fmaximum (running_peak xs i) (cumulative xs (Suc i))"
proof -
  have a: "map (cumulative xs) [0..<Suc (Suc i)] =
        map (cumulative xs) [0..<Suc i] @ [cumulative xs (Suc i)]"
    by simp
  have b: "map (cumulative xs) [0..<Suc i] \<noteq> []"
    by simp
  show ?thesis
    unfolding running_peak_def a by (rule np_max_snoc [OF b])
qed

lemma fmaximum_zero: "fmaximum a b = Fin 0 \<Longrightarrow> b = NInf \<or> (\<exists>c. b = Fin c \<and> c \<le> 0)"
  by (cases a; cases b) (auto simp: fmaximum_def split: if_splits)

lemma peak_zero_cumulative:
  "running_peak xs i = Fin 0 \<Longrightarrow>
   cumulative xs i = NInf \<or> (\<exists>c. cumulative xs i = Fin c \<and> c \<le> 0)"
proof (cases i)
  case 0
  assume "running_peak xs i = Fin 0"
  with 0 show ?thesis by (simp add: running_peak_def)
next
  case (Suc j)
  assume "running_peak xs i = Fin 0"
  with Suc show ?thesis by (auto simp: running_peak_Suc dest: fmaximum_zero)
qed

lemma peak_zero_drawdown:
  assumes "running_peak xs i = Fin 0"
  shows "fmul (fdiv (fsub (cumulative xs i) (running_peak xs i)) (running_peak xs i)) (Fin 100)
         = (if cumulative xs i = Fin 0 then NaN else NInf)"
  using peak_zero_cumulative [OF assms] assms
  by (auto simp: fsub_def signed_inf_def)

text \<open>The result of \<open>np.min\<close>: not-a-number as soon as one entry is, and otherwise an
  entry that none of the others is below.\<close>

lemma fminimum_cases: "fminimum a b = NaN \<or> fminimum a b = a \<or> fminimum a b = b"
  by (simp add: fminimum_def)

lemma fminimum_NaN: "fminimum a b = NaN \<longleftrightarrow> a = NaN \<or> b = NaN"
  by (cases a; cases b) (auto simp: fminimum_def)

lemma foldl_fminimum_NaN: "foldl fminimum a xs = NaN \<longleftrightarrow> a = NaN \<or> NaN \<in> set xs"
  by (induction xs arbitrary: a) (auto simp: fminimum_NaN)

lemma np_min_NaN: "xs \<noteq> [] \<Longrightarrow> np_min xs = NaN \<longleftrightarrow> NaN \<in> set xs"
  by (cases xs) (auto simp: foldl_fminimum_NaN)

lemma fle_fminimum: "a \<noteq> NaN \<Longrightarrow> b \<noteq> NaN \<Longrightarrow> fle (fminimum a b) a \<and> fle (fminimum a b) b"
  by (cases a; cases b) (auto simp: fminimum_def)

lemma fle_trans: "fle a b \<Longrightarrow> fle b c \<Longrightarrow> fle a c"
  by (cases a; cases b; cases c) auto

lemma foldl_fminimum_least:
  "a \<noteq> NaN \<Longrightarrow> NaN \<notin> set xs \<Longrightarrow>
   foldl fminimum a xs \<in> set (a # xs) \<and> (\<forall>x \<in> set (a # xs). fle (foldl fminimum a xs) x)"
proof (induction xs arbitrary: a)
  case Nil
  then show ?case by (cases a) auto
next
  case (Cons y ys)
  from Cons.prems have m: "fminimum a y \<noteq> NaN" by (auto simp: fminimum_NaN)
  from Cons.prems have ys: "NaN \<notin> set ys" by simp
  note IH = Cons.IH [OF m ys]
  from Cons.prems have le: "fle (fminimum a y) a" "fle (fminimum a y) y"
    using fle_fminimum [of a y] by auto
  have mem: "fminimum a y = a \<or> fminimum a y = y"
    using fminimum_cases [of a y] m by auto
  from IH have "fle (foldl fminimum (fminimum a y) ys) (fminimum a y)" by simp
  with le have "fle (foldl fminimum (fminimum a y) ys) a" "fle (foldl fminimum (fminimum a y) ys) y"
    by (blast intro: fle_trans)+
  with IH mem show ?case by auto
qed

lemma np_min_least:
  "xs \<noteq> [] \<Longrightarrow> NaN \<notin> set xs \<Longrightarrow> np_min xs \<in> set xs \<and> (\<forall>x \<in> set xs. fle (np_min xs) x)"
proof (cases xs)
  case Nil
  assume "xs \<noteq> []"
  with Nil show ?thesis by simp
next
  case (Cons a as)
  assume "NaN \<notin> set xs"
  with Cons have "a \<noteq> NaN" "NaN \<notin> set as" by auto
  from foldl_fminimum_least [OF this] Cons show ?thesis by simp
qed

text \<open>
  C2, as the code has it. For a non-empty trade list \<open>max_drawdown\<close> is the \<open>np.min\<close> of
  the drawdown sequence, which has one entry per trade: the cumulative profit minus the
  running peak, divided by the running peak, times 100. \<open>np.min\<close> is not-a-number when
  an entry is, and the least entry otherwise. The division is a float division and is
  not guarded: where the running peak is \<open>0\<close> the drawdown is not-a-number when the
  cumulative profit is \<open>0\<close> too, and minus infinity otherwise. It never raises. For the
  empty list \<open>max_drawdown\<close> is \<open>0\<close>.
\<close>

theorem drawdown_unguarded:
  "calculate_metrics [] ''max_drawdown'' = Some (PyInt 0) \<and>
   (ts \<noteq> [] \<longrightarrow>
      calculate_metrics ts ''max_drawdown'' = Some (PyFloat (np_min (drawdown_of (map pnl ts)))) \<and>
      length (drawdown_of (map pnl ts)) = length ts \<and>
      (np_min (drawdown_of (map pnl ts)) = NaN \<longleftrightarrow> NaN \<in> set (drawdown_of (map pnl ts))) \<and>
      (NaN \<notin> set (drawdown_of (map pnl ts)) \<longrightarrow>
         np_min (drawdown_of (map pnl ts)) \<in> set (drawdown_of (map pnl ts)) \<and>
         (\<forall>x \<in> set (drawdown_of (map pnl ts)). fle (np_min (drawdown_of (map pnl ts))) x))) \<and>
   (\<forall>i < length ts.
      drawdown_of (map pnl ts) ! i =
        fmul (fdiv (fsub (cumulative (map pnl ts) i) (running_peak (map pnl ts) i))
                   (running_peak (map pnl ts) i)) (Fin 100) \<and>
      (running_peak (map pnl ts) i = Fin 0 \<longrightarrow>
         drawdown_of (map pnl ts) ! i =
           (if cumulative (map pnl ts) i = Fin 0 then NaN else NInf)))"
proof -
  let ?dd = "drawdown_of (map pnl ts)"
  have len: "length ?dd = length ts" by (simp add: length_drawdown)
  have empty: "calculate_metrics [] ''max_drawdown'' = Some (PyInt 0)"
    by (simp add: calculate_metrics_def)
  have ne: "ts \<noteq> [] \<longrightarrow> ?dd \<noteq> []" using len by (metis length_0_conv)
  have nonempty: "ts \<noteq> [] \<longrightarrow> calculate_metrics ts ''max_drawdown'' = Some (PyFloat (np_min ?dd))"
    using ne by (simp add: calculate_metrics_def Let_def)
  have nan: "ts \<noteq> [] \<longrightarrow> (np_min ?dd = NaN \<longleftrightarrow> NaN \<in> set ?dd)"
    using ne np_min_NaN by blast
  have least: "ts \<noteq> [] \<longrightarrow> NaN \<notin> set ?dd \<longrightarrow>
      np_min ?dd \<in> set ?dd \<and> (\<forall>x \<in> set ?dd. fle (np_min ?dd) x)"
    using ne np_min_least by blast
  have pointwise: "\<forall>i < length ts.
      ?dd ! i = fmul (fdiv (fsub (cumulative (map pnl ts) i) (running_peak (map pnl ts) i))
                   (running_peak (map pnl ts) i)) (Fin 100) \<and>
      (running_peak (map pnl ts) i = Fin 0 \<longrightarrow>
         ?dd ! i = (if cumulative (map pnl ts) i = Fin 0 then NaN else NInf))"
  proof (intro allI impI conjI)
    fix i
    assume "i < length ts"
    then show "?dd ! i = fmul (fdiv (fsub (cumulative (map pnl ts) i) (running_peak (map pnl ts) i))
                   (running_peak (map pnl ts) i)) (Fin 100)"
      by (simp add: drawdown_nth)
  next
    fix i
    assume i: "i < length ts" and z: "running_peak (map pnl ts) i = Fin 0"
    from i have "?dd ! i = fmul (fdiv (fsub (cumulative (map pnl ts) i) (running_peak (map pnl ts) i))
                   (running_peak (map pnl ts) i)) (Fin 100)"
      by (simp add: drawdown_nth)
    with peak_zero_drawdown [OF z]
    show "?dd ! i = (if cumulative (map pnl ts) i = Fin 0 then NaN else NInf)"
      by (simp only:)
  qed
  from empty nonempty len nan least pointwise show ?thesis by blast
qed

theorem drawdown_unguarded_witness:
  "calculate_metrics [example_trade 100 110, example_trade 100 95] ''max_drawdown''
     = Some (PyFloat (Fin (- 50)))"
proof -
  have "drawdown_of (map pnl [example_trade 100 110, example_trade 100 95]) = [Fin 0, Fin (- 50)]"
    by (simp add: drawdown_of_def cumsum_def example_trade_def fsub_def fmaximum_def)
  then show ?thesis
    using drawdown_unguarded [of "[example_trade 100 110, example_trade 100 95]"]
    by (simp add: fminimum_def)
qed

text \<open>The claim that a running peak of \<open>0\<close> gives a drawdown of \<open>0\<close> fails: one trade
  that closes at its entry price has profit \<open>0\<close>, peak \<open>0\<close>, and \<open>max_drawdown\<close> is
  not-a-number.\<close>

theorem zero_peak_counterexample:
  "pnl (example_trade 100 100) = Fin 0 \<and>
   running_peak (map pnl [example_trade 100 100]) 0 = Fin 0 \<and>
   calculate_metrics [example_trade 100 100] ''max_drawdown'' = Some (PyFloat NaN)"
  by (simp add: calculate_metrics_def Let_def drawdown_of_def cumsum_def example_trade_def
        fsub_def running_peak_def cumulative_def py_sum_def)

section \<open>Rolling windows and the relative strength index\<close>

lemma length_rolling_mean [simp]: "length (rolling_mean w xs) = length xs"
  by (simp add: rolling_mean_def)

lemma length_diff [simp]: "length (diff xs) = length xs"
  by (simp add: diff_def)

lemma length_series [simp]: "length (series xs) = length xs"
  by (simp add: series_def)

lemma length_where_else_0 [simp]: "length (where_else_0 c xs) = length xs"
  by (simp add: where_else_0_def)

lemma series_upt: "series xs = map (\<lambda>j. Fin (xs ! j)) [0..<length xs]"
  unfolding series_def by (rule nth_equalityI) simp_all

lemma window_map_upt:
  assumes "w \<le> Suc i" and "i < n"
  shows "window w (map f [0..<n]) i = map f [Suc i - w..<Suc i]"
proof -
  have "take w [Suc i - w..<n] = [Suc i - w..<Suc i - w + w]"
    using assms by (intro take_upt) simp
  then show ?thesis
    using assms by (simp add: window_def drop_map take_map)
qed

lemma rolling_mean_finite:
  assumes "w \<le> Suc i" and "i < n"
  shows "rolling_mean w (map (\<lambda>j. Fin (f j)) [0..<n]) ! i
           = Fin (sum_list (map f [Suc i - w..<Suc i]) / real w)"
proof -
  have win: "window w (map (\<lambda>j. Fin (f j)) [0..<n]) i = map (\<lambda>j. Fin (f j)) [Suc i - w..<Suc i]"
    using assms by (rule window_map_upt)
  have "list_all is_fin (map (\<lambda>j. Fin (f j)) [Suc i - w..<Suc i])"
    by (simp add: list_all_iff)
  moreover have "map the_fin (map (\<lambda>j. Fin (f j)) [Suc i - w..<Suc i]) = map f [Suc i - w..<Suc i]"
    by simp
  ultimately show ?thesis
    using assms by (simp add: rolling_mean_def win comp_def del: upt_Suc)
qed

lemma rolling_mean_early: "Suc i < w \<Longrightarrow> i < length xs \<Longrightarrow> rolling_mean w xs ! i = NaN"
  by (simp add: rolling_mean_def)

lemma gains_upt:
  "where_else_0 (\<lambda>x. fgt x (Fin 0)) (diff (series (Close d))) = map (\<lambda>j. Fin (gain_at d j)) [0..<len d]"
  by (rule nth_equalityI)
     (auto simp: where_else_0_def diff_def series_def len_def gain_at_def fgt_def fsub_def max_def)

lemma losses_upt:
  "map fneg (where_else_0 (\<lambda>x. flt x (Fin 0)) (diff (series (Close d)))) = map (\<lambda>j. Fin (loss_at d j)) [0..<len d]"
  by (rule nth_equalityI)
     (auto simp: where_else_0_def diff_def series_def len_def loss_at_def fsub_def max_def)

lemma avg_gain_nth:
  "period \<le> Suc i \<Longrightarrow> i < len d \<Longrightarrow>
   avg_gain d period ! i = Fin (sum_list (map (gain_at d) [Suc i - period..<Suc i]) / real period)"
  unfolding avg_gain_def gains_upt by (rule rolling_mean_finite)

lemma avg_loss_nth:
  "period \<le> Suc i \<Longrightarrow> i < len d \<Longrightarrow>
   avg_loss d period ! i = Fin (sum_list (map (loss_at d) [Suc i - period..<Suc i]) / real period)"
  unfolding avg_loss_def losses_upt by (rule rolling_mean_finite)

lemma length_avg_gain [simp]: "length (avg_gain d period) = len d"
  by (simp add: avg_gain_def len_def)

lemma length_avg_loss [simp]: "length (avg_loss d period) = len d"
  by (simp add: avg_loss_def len_def)

lemma length_calculate_rsi [simp]: "length (calculate_rsi d period) = len d"
  by (simp add: calculate_rsi_def Let_def len_def)

lemma calculate_rsi_nth:
  "i < len d \<Longrightarrow>
   calculate_rsi d period ! i =
     fsub (Fin 100) (fdiv (Fin 100) (fadd (Fin 1) (fdiv (avg_gain d period ! i) (avg_loss d period ! i))))"
  by (simp add: calculate_rsi_def Let_def avg_gain_def avg_loss_def len_def)

lemma calculate_rsi_early:
  "Suc i < period \<Longrightarrow> i < len d \<Longrightarrow> calculate_rsi d period ! i = NaN"
  by (simp add: calculate_rsi_nth avg_gain_def rolling_mean_early len_def fsub_def)

lemma gain_at_nonneg: "0 \<le> gain_at d j"
  by (simp add: gain_at_def)

lemma loss_at_nonneg: "0 \<le> loss_at d j"
  by (simp add: loss_at_def)

text \<open>The value of the index from the two averages, when both are finite and not negative.\<close>

lemma rsi_value:
  assumes "0 \<le> g" and "0 \<le> l"
  shows "fsub (Fin 100) (fdiv (Fin 100) (fadd (Fin 1) (fdiv (Fin g) (Fin l)))) =
          (if l = 0 then (if g = 0 then NaN else Fin 100) else Fin (100 - 100 / (1 + g / l)))"
proof -
  have "1 + g / l \<noteq> 0" if "l \<noteq> 0"
  proof -
    from assms have "0 \<le> g / l" by simp
    then show ?thesis by linarith
  qed
  with assms show ?thesis
    by (auto simp: fsub_def signed_inf_def)
qed


lemma rsi_nth_value:
  assumes "period \<le> Suc i" and "i < len d"
  shows "\<exists>g l. 0 \<le> g \<and> 0 \<le> l \<and> avg_gain d period ! i = Fin g \<and> avg_loss d period ! i = Fin l \<and>
     calculate_rsi d period ! i =
        (if l = 0 then (if g = 0 then NaN else Fin 100) else Fin (100 - 100 / (1 + g / l)))"
proof -
  let ?g = "sum_list (map (gain_at d) [Suc i - period..<Suc i]) / real period"
  let ?l = "sum_list (map (loss_at d) [Suc i - period..<Suc i]) / real period"
  have g: "0 \<le> ?g" by (intro divide_nonneg_nonneg sum_list_nonneg) (auto simp: gain_at_nonneg)
  have l: "0 \<le> ?l" by (intro divide_nonneg_nonneg sum_list_nonneg) (auto simp: loss_at_nonneg)
  have "calculate_rsi d period ! i =
      fsub (Fin 100) (fdiv (Fin 100) (fadd (Fin 1) (fdiv (Fin ?g) (Fin ?l))))"
    using assms by (simp only: calculate_rsi_nth avg_gain_nth avg_loss_nth)
  with rsi_value [OF g l] avg_gain_nth [OF assms] avg_loss_nth [OF assms] g l
  show ?thesis by metis
qed

text \<open>A flat window: every close of the window equals its predecessor.\<close>

lemma sum_list_all_zero: "(\<forall>x \<in> set xs. f x = (0::real)) \<Longrightarrow> sum_list (map f xs) = 0"
  by (induction xs) simp_all

lemma flat_window_sums:
  assumes "\<forall>j. Suc i - period \<le> j \<and> j \<le> i \<and> 0 < j \<longrightarrow> Close d ! j = Close d ! (j - 1)"
  shows "sum_list (map (gain_at d) [Suc i - period..<Suc i]) = 0"
    and "sum_list (map (loss_at d) [Suc i - period..<Suc i]) = 0"
proof -
  have "\<forall>j \<in> set [Suc i - period..<Suc i]. gain_at d j = 0"
    using assms by (auto simp: gain_at_def)
  then show "sum_list (map (gain_at d) [Suc i - period..<Suc i]) = 0"
    by (rule sum_list_all_zero)
  have "\<forall>j \<in> set [Suc i - period..<Suc i]. loss_at d j = 0"
    using assms by (auto simp: loss_at_def)
  then show "sum_list (map (loss_at d) [Suc i - period..<Suc i]) = 0"
    by (rule sum_list_all_zero)
qed

lemma rsi_flat:
  assumes "period \<le> Suc i" and "i < len d"
    and "\<forall>j. Suc i - period \<le> j \<and> j \<le> i \<and> 0 < j \<longrightarrow> Close d ! j = Close d ! (j - 1)"
  shows "avg_gain d period ! i = Fin 0 \<and> avg_loss d period ! i = Fin 0 \<and>
         calculate_rsi d period ! i = NaN"
  using assms(1,2) flat_window_sums [OF assms(3)]
  by (simp add: calculate_rsi_nth avg_gain_nth avg_loss_nth fsub_def)

lemma rsi_both_zero:
  assumes "i < len d" and "avg_gain d period ! i = Fin 0" and "avg_loss d period ! i = Fin 0"
  shows "calculate_rsi d period ! i = NaN"
  using assms by (simp add: calculate_rsi_nth fsub_def)

lemma rsi_saturates:
  assumes "i < len d" and "avg_loss d period ! i = Fin 0" and "avg_gain d period ! i = Fin g" and "0 < g"
  shows "calculate_rsi d period ! i = Fin 100"
  using assms by (simp add: calculate_rsi_nth fsub_def signed_inf_def)


lemma assign_indicators_base [simp]:
  "Close (assign_indicators d) = Close d"
  "Volume (assign_indicators d) = Volume d"
  "Index (assign_indicators d) = Index d"
  "len (assign_indicators d) = len d"
  by (simp_all add: assign_indicators_def Let_def split_def set_column_def len_def)

lemma assign_indicators_columns:
  "columns (assign_indicators d) =
     (columns d)
       (''RSI'' \<mapsto> calculate_rsi d 14,
        ''MACD'' \<mapsto> series (fst (calculate_macd d 12 26 9)),
        ''MACD_Signal'' \<mapsto> series (fst (snd (calculate_macd d 12 26 9))),
        ''MACD_Histogram'' \<mapsto> series (snd (snd (calculate_macd d 12 26 9))),
        ''MA20'' \<mapsto> rolling_mean 20 (series (Close d)),
        ''MA50'' \<mapsto> rolling_mean 50 (series (Close d)),
        ''BB_Upper'' \<mapsto> fst (calculate_bollinger_bands d 20 2),
        ''BB_Middle'' \<mapsto> fst (snd (calculate_bollinger_bands d 20 2)),
        ''BB_Lower'' \<mapsto> snd (snd (calculate_bollinger_bands d 20 2)))"
  by (simp add: assign_indicators_def Let_def split_def set_column_def
        calculate_rsi_def calculate_macd_def calculate_moving_averages_def
        calculate_bollinger_bands_def)

lemma rsi_column: "iloc (assign_indicators d) ''RSI'' i = calculate_rsi d 14 ! i"
  by (simp add: iloc_def assign_indicators_columns)

lemma ma20_column: "iloc (assign_indicators d) ''MA20'' i = rolling_mean 20 (series (Close d)) ! i"
  by (simp add: iloc_def assign_indicators_columns)

lemma ma50_column: "iloc (assign_indicators d) ''MA50'' i = rolling_mean 50 (series (Close d)) ! i"
  by (simp add: iloc_def assign_indicators_columns)

lemma rolling_mean_series_null:
  assumes "i < length xs"
  shows "isna (rolling_mean w (series xs) ! i) \<longleftrightarrow> Suc i < w"
proof (cases "Suc i < w")
  case True
  with assms show ?thesis by (simp add: rolling_mean_early)
next
  case False
  then have "w \<le> Suc i" by simp
  from rolling_mean_finite [OF this assms, of "\<lambda>j. xs ! j"] False
  show ?thesis by (simp add: series_upt)
qed

lemma rising_window:
  assumes "period \<le> Suc i" and "i < len d" and "0 < i" and "0 < period"
    and "\<forall>j. Suc i - period \<le> j \<and> j \<le> i \<and> 0 < j \<longrightarrow> Close d ! (j - 1) < Close d ! j"
  shows "avg_loss d period ! i = Fin 0 \<and> (\<exists>g. 0 < g \<and> avg_gain d period ! i = Fin g)"
proof -
  have "\<forall>j \<in> set [Suc i - period..<Suc i]. loss_at d j = 0"
    using assms(5) by (auto simp: loss_at_def max_def)
  then have "sum_list (map (loss_at d) [Suc i - period..<Suc i]) = 0"
    by (rule sum_list_all_zero)
  then have loss: "avg_loss d period ! i = Fin 0"
    using assms by (simp add: avg_loss_nth)
  have "Close d ! (i - 1) < Close d ! i"
    using assms by (intro assms(5) [rule_format]) simp
  then have "0 < gain_at d i"
    using assms(3) by (simp add: gain_at_def max_def)
  moreover have "0 \<le> sum_list (map (gain_at d) [Suc i - period..<i])"
    by (intro sum_list_nonneg) (auto simp: gain_at_nonneg)
  moreover have "[Suc i - period..<Suc i] = [Suc i - period..<i] @ [i]"
    using assms by simp
  ultimately have "0 < sum_list (map (gain_at d) [Suc i - period..<Suc i])"
    by simp
  then have "0 < sum_list (map (gain_at d) [Suc i - period..<Suc i]) / real period"
    using assms by simp
  with loss avg_gain_nth [OF assms(1,2)] show ?thesis by blast
qed

lemma len_rising_frame: "len rising_frame = 60"
  by (simp add: rising_frame_def new_frame_def len_def)

lemma close_rising_frame: "j < 60 \<Longrightarrow> Close rising_frame ! j = real (100 + j)"
  by (simp add: rising_frame_def new_frame_def del: upt_rec_numeral)

lemma len_flat_frame: "len flat_frame = 60"
  by (simp add: flat_frame_def new_frame_def len_def)

lemma close_flat_frame: "j < 60 \<Longrightarrow> Close flat_frame ! j = 100"
  by (simp add: flat_frame_def new_frame_def)

text \<open>
  C7. At a bar with a full window whose average loss is \<open>0\<close> and whose average gain
  is positive, the quotient of the two is infinite and the index is exactly \<open>100\<close>, for
  every period and in particular in the column \<open>RSI\<close> (period 14) that
  \<open>add_technical_indicators\<close> writes.
\<close>

theorem rsi_saturation:
  assumes "i < len d" and "period \<le> Suc i"
    and "avg_loss d period ! i = Fin 0" and "avg_gain d period ! i = Fin g" and "0 < g"
  shows "calculate_rsi d period ! i = Fin 100 \<and>
         (period = 14 \<longrightarrow> iloc (snd (add_technical_indicators a (h(a := d))) a) ''RSI'' i = Fin 100)"
proof -
  have "calculate_rsi d period ! i = Fin 100"
    using assms by (intro rsi_saturates [of i d period g])
  then show ?thesis
    by (auto simp: add_technical_indicators_def rsi_column)
qed

theorem rsi_saturation_witness:
  "avg_loss rising_frame 14 ! 20 = Fin 0 \<and> calculate_rsi rising_frame 14 ! 20 = Fin 100"
proof -
  have len: "20 < len rising_frame" by (simp add: len_rising_frame)
  have "\<forall>j. Suc 20 - 14 \<le> j \<and> j \<le> 20 \<and> 0 < j \<longrightarrow>
          Close rising_frame ! (j - 1) < Close rising_frame ! j"
    by (auto simp: close_rising_frame)
  with len have "avg_loss rising_frame 14 ! 20 = Fin 0 \<and>
      (\<exists>g. 0 < g \<and> avg_gain rising_frame 14 ! 20 = Fin g)"
    by (intro rising_window) simp_all
  then obtain g where "avg_loss rising_frame 14 ! 20 = Fin 0" and "0 < g"
    and "avg_gain rising_frame 14 ! 20 = Fin g" by blast
  with len rsi_saturation [of 20 rising_frame 14 g] show ?thesis by simp
qed

text \<open>
  C10. At a bar with a full window whose average gain and average loss are both \<open>0\<close>
  the quotient is \<open>0 / 0\<close> and the index is null. That is the case whenever every
  close of the window equals its predecessor.
\<close>

theorem rsi_null_on_flat_window:
  assumes "i < len d" and "period \<le> Suc i"
  shows "(avg_gain d period ! i = Fin 0 \<and> avg_loss d period ! i = Fin 0 \<longrightarrow>
            calculate_rsi d period ! i = NaN) \<and>
         ((\<forall>j. Suc i - period \<le> j \<and> j \<le> i \<and> 0 < j \<longrightarrow> Close d ! j = Close d ! (j - 1)) \<longrightarrow>
            avg_gain d period ! i = Fin 0 \<and> avg_loss d period ! i = Fin 0 \<and>
            calculate_rsi d period ! i = NaN \<and>
            (period = 14 \<longrightarrow>
               isna (iloc (snd (add_technical_indicators a (h(a := d))) a) ''RSI'' i)))"
proof -
  have one: "avg_gain d period ! i = Fin 0 \<and> avg_loss d period ! i = Fin 0 \<longrightarrow>
            calculate_rsi d period ! i = NaN"
    using assms(1) by (simp add: rsi_both_zero)
  have two: "avg_gain d period ! i = Fin 0 \<and> avg_loss d period ! i = Fin 0 \<and>
            calculate_rsi d period ! i = NaN \<and>
            (period = 14 \<longrightarrow>
               isna (iloc (snd (add_technical_indicators a (h(a := d))) a) ''RSI'' i))"
    if flat: "\<forall>j. Suc i - period \<le> j \<and> j \<le> i \<and> 0 < j \<longrightarrow> Close d ! j = Close d ! (j - 1)"
    using rsi_flat [OF assms(2,1) flat]
    by (auto simp: add_technical_indicators_def rsi_column)
  from one two show ?thesis by blast
qed

theorem rsi_null_on_flat_window_witness:
  "avg_gain flat_frame 14 ! 30 = Fin 0 \<and> avg_loss flat_frame 14 ! 30 = Fin 0 \<and>
   calculate_rsi flat_frame 14 ! 30 = NaN"
proof -
  have len: "30 < len flat_frame" by (simp add: len_flat_frame)
  have flat: "\<forall>j. Suc 30 - 14 \<le> j \<and> j \<le> 30 \<and> 0 < j \<longrightarrow>
          Close flat_frame ! j = Close flat_frame ! (j - 1)"
    by (auto simp: close_flat_frame)
  from len flat rsi_null_on_flat_window [of 30 flat_frame 14] show ?thesis by simp
qed

text \<open>
  C4, as the code has it. In the columns that \<open>add_technical_indicators\<close> writes on a
  frame of finite closes, \<open>MA20\<close> is null exactly at the rows before row 19 and \<open>MA50\<close>
  exactly at the rows before row 49. \<open>RSI\<close> is null at every row before row 13; from
  row 13 on it is null exactly where the average gain and the average loss of the
  window are both \<open>0\<close>, and a number everywhere else.
\<close>

theorem rolling_nulls:
  assumes "i < len d"
  shows "(isna (iloc (snd (add_technical_indicators a (h(a := d))) a) ''MA20'' i) \<longleftrightarrow> i < 19) \<and>
         (isna (iloc (snd (add_technical_indicators a (h(a := d))) a) ''MA50'' i) \<longleftrightarrow> i < 49) \<and>
         (isna (iloc (snd (add_technical_indicators a (h(a := d))) a) ''RSI'' i) \<longleftrightarrow>
            i < 13 \<or> (avg_gain d 14 ! i = Fin 0 \<and> avg_loss d 14 ! i = Fin 0)) \<and>
         (i < 13 \<longrightarrow> isna (avg_gain d 14 ! i))"
proof -
  from assms have i: "i < length (Close d)" by (simp add: len_def)
  have ma20: "isna (rolling_mean 20 (series (Close d)) ! i) \<longleftrightarrow> i < 19"
    using rolling_mean_series_null [OF i, of 20] by auto
  have ma50: "isna (rolling_mean 50 (series (Close d)) ! i) \<longleftrightarrow> i < 49"
    using rolling_mean_series_null [OF i, of 50] by auto
  have early: "i < 13 \<longrightarrow> isna (avg_gain d 14 ! i)"
    using i by (simp add: avg_gain_def rolling_mean_early)
  have rsi: "isna (calculate_rsi d 14 ! i) \<longleftrightarrow>
             i < 13 \<or> (avg_gain d 14 ! i = Fin 0 \<and> avg_loss d 14 ! i = Fin 0)"
  proof (cases "i < 13")
    case True
    with assms show ?thesis by (simp add: calculate_rsi_early)
  next
    case False
    then have "14 \<le> Suc i" by simp
    from rsi_nth_value [OF this assms] False show ?thesis
      by (auto split: if_splits)
  qed
  from ma20 ma50 rsi early show ?thesis
    by (simp add: add_technical_indicators_def rsi_column ma20_column ma50_column)
qed

theorem rolling_nulls_witness:
  "isna (iloc (snd (add_technical_indicators 0 ((\<lambda>_. flat_frame)(0 := rising_frame))) 0) ''MA50'' 30) \<and>
   \<not> isna (iloc (snd (add_technical_indicators 0 ((\<lambda>_. flat_frame)(0 := rising_frame))) 0) ''MA20'' 30) \<and>
   \<not> isna (iloc (snd (add_technical_indicators 0 ((\<lambda>_. flat_frame)(0 := rising_frame))) 0) ''MA50'' 49)"
proof -
  have "30 < len rising_frame" and "49 < len rising_frame"
    by (simp_all add: len_rising_frame)
  from rolling_nulls [OF this(1), of 0 "\<lambda>_. flat_frame"]
       rolling_nulls [OF this(2), of 0 "\<lambda>_. flat_frame"]
  show ?thesis by simp
qed

text \<open>The claim that the index is a number at every row from \<open>period - 1\<close> on fails on
  sixty equal closes: at row 13 the window is full and the index is null.\<close>

theorem flat_rsi_counterexample:
  "len flat_frame = 60 \<and> 14 - 1 \<le> (13::nat) \<and>
   isna (iloc (snd (add_technical_indicators 0 (\<lambda>_. flat_frame)) 0) ''RSI'' 13)"
proof -
  have len: "13 < len flat_frame" by (simp add: len_flat_frame)
  have flat: "\<forall>j. Suc 13 - 14 \<le> j \<and> j \<le> 13 \<and> 0 < j \<longrightarrow>
          Close flat_frame ! j = Close flat_frame ! (j - 1)"
    by (auto simp: close_flat_frame)
  have "calculate_rsi flat_frame 14 ! 13 = NaN"
    using rsi_flat [of 14 13 flat_frame] len flat by simp
  then show ?thesis
    by (simp add: add_technical_indicators_def rsi_column len_flat_frame)
qed

section \<open>The prepared frame and the rows that training keeps\<close>

lemma length_ewm_mean [simp]: "length (ewm_mean n xs) = length xs"
  by (simp add: ewm_mean_def)

lemma length_macd [simp]:
  "length (fst (calculate_macd d a b c)) = len d"
  "length (fst (snd (calculate_macd d a b c))) = len d"
  "length (snd (snd (calculate_macd d a b c))) = len d"
  by (simp_all add: calculate_macd_def Let_def len_def)

lemma length_pct_change [simp]: "length (pct_change xs) = length xs"
  by (simp add: pct_change_def)

lemma length_shift_up [simp]: "length (shift_up xs) = length xs"
  by (simp add: shift_up_def)

lemma series_not_null: "i < length xs \<Longrightarrow> \<not> isna (series xs ! i)"
  by (simp add: series_def)

lemma fillna_not_null: "i < length xs \<Longrightarrow> \<not> isna (fillna v xs ! i)"
  by (simp add: fillna_def)

lemma gt0_as_int_not_null: "i < length xs \<Longrightarrow> \<not> isna (gt0_as_int xs ! i)"
  by (simp add: gt0_as_int_def)

lemma shift_up_last: "xs \<noteq> [] \<Longrightarrow> shift_up xs ! (length xs - 1) = NaN"
  by (simp add: shift_up_def)

lemma gt0_as_int_null: "i < length xs \<Longrightarrow> xs ! i = NaN \<Longrightarrow> gt0_as_int xs ! i = Fin 0"
  by (simp add: gt0_as_int_def fgt_def)

lemma prepared_base [simp]:
  "Close (prepared d) = Close d"
  "Volume (prepared d) = Volume d"
  "Index (prepared d) = Index d"
  "len (prepared d) = len d"
  by (simp_all add: prepared_def assign_features_def Let_def set_column_def len_def)

lemma prepared_columns:
  "columns (prepared d) =
     (columns (assign_indicators d))
       (''Next_Day_Return'' \<mapsto> shift_up (pct_change (Close d)),
        ''Target'' \<mapsto> gt0_as_int (shift_up (pct_change (Close d))),
        ''Price_Change'' \<mapsto> pct_change (Close d),
        ''Volume_MA'' \<mapsto> rolling_mean 20 (series (Volume d)),
        ''Volume_Ratio'' \<mapsto>
            fillna 1 (map2 fdiv (series (Volume d)) (rolling_mean 20 (series (Volume d)))))"
  by (simp add: prepared_def assign_features_def Let_def set_column_def)

lemma prepare_features_eq:
  "prepare_features p a h =
     (a,
      p\<lparr>feature_columns := [''RSI'', ''MACD'', ''Volume_Ratio'', ''MA20'', ''MA50'',
                              ''Price_Change'', ''MACD_Histogram'']\<rparr>,
      h(a := prepared (h a)))"
  by (simp add: prepare_features_def add_technical_indicators_def prepared_def Let_def)

lemma prepared_iloc:
  "iloc (prepared d) ''RSI'' i = calculate_rsi d 14 ! i"
  "iloc (prepared d) ''MACD'' i = series (fst (calculate_macd d 12 26 9)) ! i"
  "iloc (prepared d) ''Volume_Ratio'' i =
     fillna 1 (map2 fdiv (series (Volume d)) (rolling_mean 20 (series (Volume d)))) ! i"
  "iloc (prepared d) ''MA20'' i = rolling_mean 20 (series (Close d)) ! i"
  "iloc (prepared d) ''MA50'' i = rolling_mean 50 (series (Close d)) ! i"
  "iloc (prepared d) ''Price_Change'' i = pct_change (Close d) ! i"
  "iloc (prepared d) ''MACD_Histogram'' i = series (snd (snd (calculate_macd d 12 26 9))) ! i"
  "iloc (prepared d) ''Target'' i = gt0_as_int (shift_up (pct_change (Close d))) ! i"
  "iloc (prepared d) ''Next_Day_Return'' i = shift_up (pct_change (Close d)) ! i"
  by (simp_all add: iloc_def prepared_columns assign_indicators_columns)


lemma pct_change_null:
  assumes "i < length xs"
  shows "isna (pct_change xs ! i) \<longleftrightarrow> i = 0 \<or> (xs ! i = 0 \<and> xs ! (i - 1) = 0)"
  using assms by (auto simp: pct_change_def fsub_def signed_inf_def)

text \<open>Which rows survive \<open>dropna\<close> on the seven feature columns and \<open>Target\<close>: those
  from row 49 on whose \<open>RSI\<close> and \<open>Price_Change\<close> are not null. The other columns
  never hold a null, \<open>Target\<close> included.\<close>

lemma row_has_null:
  assumes "wf_frame d" and "i < len d"
  shows "list_ex isna (row (prepared d)
            ([''RSI'', ''MACD'', ''Volume_Ratio'', ''MA20'', ''MA50'', ''Price_Change'',
              ''MACD_Histogram'', ''Target'']) i) \<longleftrightarrow>
         i < 49 \<or> isna (calculate_rsi d 14 ! i) \<or> isna (pct_change (Close d) ! i)"
proof -
  from assms have i: "i < length (Close d)" "i < length (Volume d)"
    by (simp_all add: wf_frame_def len_def)
  have macd: "\<not> isna (series (fst (calculate_macd d 12 26 9)) ! i)"
    using assms by (intro series_not_null) simp
  have hist: "\<not> isna (series (snd (snd (calculate_macd d 12 26 9))) ! i)"
    using assms by (intro series_not_null) simp
  have ratio: "\<not> isna (fillna 1 (map2 fdiv (series (Volume d)) (rolling_mean 20 (series (Volume d)))) ! i)"
    using i by (intro fillna_not_null) simp
  have target: "\<not> isna (gt0_as_int (shift_up (pct_change (Close d))) ! i)"
    using i by (intro gt0_as_int_not_null) simp
  have ma20: "isna (rolling_mean 20 (series (Close d)) ! i) \<longleftrightarrow> i < 19"
    using rolling_mean_series_null [OF i(1), of 20] by auto
  have ma50: "isna (rolling_mean 50 (series (Close d)) ! i) \<longleftrightarrow> i < 49"
    using rolling_mean_series_null [OF i(1), of 50] by auto
  show ?thesis
    using macd hist ratio target ma20 ma50
    by (auto simp: row_def prepared_iloc)
qed

lemma dropna_prepared:
  assumes "wf_frame d"
  shows "dropna (prepared d)
            ([''RSI'', ''MACD'', ''Volume_Ratio'', ''MA20'', ''MA50'', ''Price_Change'',
              ''MACD_Histogram'', ''Target'']) =
         filter (\<lambda>i. 49 \<le> i \<and> \<not> isna (calculate_rsi d 14 ! i) \<and> \<not> isna (pct_change (Close d) ! i))
           [0..<len d]"
  unfolding dropna_def prepared_base
  by (rule filter_cong) (use row_has_null [OF assms] in auto)

lemma last_row:
  assumes "0 < len d"
  shows "isna (iloc (prepared d) ''Next_Day_Return'' (len d - 1))"
    and "iloc (prepared d) ''Target'' (len d - 1) = Fin 0"
proof -
  from assms have ne: "pct_change (Close d) \<noteq> []" by (auto simp: len_def pct_change_def)
  have last: "shift_up (pct_change (Close d)) ! (len d - 1) = NaN"
    using shift_up_last [OF ne] by (simp add: len_def)
  then show "isna (iloc (prepared d) ''Next_Day_Return'' (len d - 1))"
    by (simp add: prepared_iloc)
  show "iloc (prepared d) ''Target'' (len d - 1) = Fin 0"
    using assms last by (simp add: prepared_iloc gt0_as_int_null len_def)
qed

lemma wf_new_frame: "length vs = length cs \<Longrightarrow> wf_frame (new_frame cs vs)"
  by (simp add: wf_frame_def new_frame_def)

lemma wf_rising_frame: "wf_frame rising_frame"
  by (simp add: rising_frame_def wf_new_frame)

lemma rising_rsi: "0 < i \<Longrightarrow> 13 \<le> i \<Longrightarrow> i < 60 \<Longrightarrow> calculate_rsi rising_frame 14 ! i = Fin 100"
proof -
  assume i: "0 < i" "13 \<le> i" "i < 60"
  have "\<forall>j. Suc i - 14 \<le> j \<and> j \<le> i \<and> 0 < j \<longrightarrow>
          Close rising_frame ! (j - 1) < Close rising_frame ! j"
    using i by (auto simp: close_rising_frame)
  with i have "avg_loss rising_frame 14 ! i = Fin 0 \<and>
      (\<exists>g. 0 < g \<and> avg_gain rising_frame 14 ! i = Fin g)"
    by (intro rising_window) (simp_all add: len_rising_frame)
  with i show ?thesis
    by (auto simp: len_rising_frame intro: rsi_saturates)
qed

lemma agree_upto_nth:
  assumes "agree_upto t xs ys" and "j \<le> t"
  shows "xs ! j = ys ! j"
proof -
  from assms(1) have eq: "take (Suc t) xs = take (Suc t) ys"
    by (simp add: agree_upto_def)
  from assms(2) have "xs ! j = take (Suc t) xs ! j" by simp
  also have "\<dots> = take (Suc t) ys ! j" by (simp only: eq)
  also from assms(2) have "\<dots> = ys ! j" by simp
  finally show ?thesis .
qed

lemma window_nths:
  assumes "w \<le> Suc i" and "i < length xs"
  shows "window w xs i = map (\<lambda>j. xs ! j) [Suc i - w..<Suc i]"
proof -
  have "window w (map (\<lambda>j. xs ! j) [0..<length xs]) i = map (\<lambda>j. xs ! j) [Suc i - w..<Suc i]"
    using assms by (rule window_map_upt)
  then show ?thesis by (simp add: map_nth)
qed

lemma window_agree:
  assumes "agree_upto t xs ys" and "w \<le> Suc t"
  shows "window w xs t = window w ys t"
proof -
  from assms(1) have "t < length xs" "t < length ys" by (simp_all add: agree_upto_def)
  with assms(2) have "window w xs t = map (\<lambda>j. xs ! j) [Suc t - w..<Suc t]"
    and "window w ys t = map (\<lambda>j. ys ! j) [Suc t - w..<Suc t]"
    by (simp_all add: window_nths)
  moreover have "map (\<lambda>j. xs ! j) [Suc t - w..<Suc t] = map (\<lambda>j. ys ! j) [Suc t - w..<Suc t]"
    by (rule map_cong) (use agree_upto_nth [OF assms(1)] in auto)
  ultimately show ?thesis by simp
qed

lemma rolling_mean_agree:
  assumes "agree_upto t xs ys"
  shows "rolling_mean w xs ! t = rolling_mean w ys ! t"
proof (cases "Suc t < w")
  case True
  with assms show ?thesis by (simp add: agree_upto_def rolling_mean_early)
next
  case False
  then have "window w xs t = window w ys t"
    using assms by (intro window_agree) simp_all
  with assms False show ?thesis
    by (simp add: rolling_mean_def agree_upto_def)
qed

lemma ewm_at_agree:
  assumes "agree_upto t xs ys"
  shows "ewm_at q xs t = ewm_at q ys t"
proof -
  have "map (\<lambda>k. q ^ k * xs ! (t - k)) [0..<Suc t] = map (\<lambda>k. q ^ k * ys ! (t - k)) [0..<Suc t]"
    by (rule map_cong) (use agree_upto_nth [OF assms] in auto)
  then show ?thesis by (simp only: ewm_at_def)
qed

lemma agree_uptoI:
  assumes "t < length xs" and "t < length ys" and "\<And>j. j \<le> t \<Longrightarrow> xs ! j = ys ! j"
  shows "agree_upto t xs ys"
proof -
  have "take (Suc t) xs = take (Suc t) ys"
  proof (rule nth_equalityI)
    show "length (take (Suc t) xs) = length (take (Suc t) ys)"
      using assms(1,2) by simp
  next
    fix i
    assume "i < length (take (Suc t) xs)"
    then have "i \<le> t" by simp
    then show "take (Suc t) xs ! i = take (Suc t) ys ! i"
      using assms(3) by simp
  qed
  with assms(1,2) show ?thesis by (simp add: agree_upto_def)
qed

lemma agree_upto_mono:
  assumes "agree_upto t xs ys" and "j \<le> t"
  shows "agree_upto j xs ys"
proof (rule agree_uptoI)
  from assms show "j < length xs" and "j < length ys"
    by (simp_all add: agree_upto_def)
next
  fix i
  assume "i \<le> j"
  with assms(2) have "i \<le> t" by simp
  with assms(1) show "xs ! i = ys ! i" by (rule agree_upto_nth)
qed

lemma series_agree: "agree_upto t xs ys \<Longrightarrow> agree_upto t (series xs) (series ys)"
  by (simp add: agree_upto_def series_def take_map)

lemma macd_nth:
  "t < len d \<Longrightarrow>
   fst (calculate_macd d a b c) ! t =
     ewm_at (1 - 2 / (real a + 1)) (Close d) t - ewm_at (1 - 2 / (real b + 1)) (Close d) t"
  by (simp add: calculate_macd_def Let_def ewm_mean_def len_def)

lemma histogram_nth:
  "t < len d \<Longrightarrow>
   snd (snd (calculate_macd d a b c)) ! t =
     fst (calculate_macd d a b c) ! t
     - ewm_at (1 - 2 / (real c + 1)) (fst (calculate_macd d a b c)) t"
  by (simp add: calculate_macd_def Let_def ewm_mean_def len_def)

lemma macd_agree:
  assumes "agree_upto t (Close d) (Close d')"
  shows "agree_upto t (fst (calculate_macd d a b c)) (fst (calculate_macd d' a b c))"
proof (rule agree_uptoI)
  from assms show "t < length (fst (calculate_macd d a b c))"
    and "t < length (fst (calculate_macd d' a b c))"
    by (simp_all add: agree_upto_def len_def)
next
  fix j
  assume "j \<le> t"
  then have j: "agree_upto j (Close d) (Close d')"
    using assms agree_upto_mono by blast
  then have "j < len d" "j < len d'"
    by (simp_all add: agree_upto_def len_def)
  then show "fst (calculate_macd d a b c) ! j = fst (calculate_macd d' a b c) ! j"
    by (simp only: macd_nth ewm_at_agree [OF j])
qed

lemma histogram_agree:
  assumes "agree_upto t (Close d) (Close d')"
  shows "snd (snd (calculate_macd d a b c)) ! t = snd (snd (calculate_macd d' a b c)) ! t"
proof -
  have m: "agree_upto t (fst (calculate_macd d a b c)) (fst (calculate_macd d' a b c))"
    using assms by (rule macd_agree)
  have len: "t < len d" "t < len d'"
    using assms by (simp_all add: agree_upto_def len_def)
  show ?thesis
    using ewm_at_agree [OF m] agree_upto_nth [OF m, of t] by (simp only: histogram_nth [OF len(1)] histogram_nth [OF len(2)])
qed

lemma rsi_agree:
  assumes "agree_upto t (Close d) (Close d')"
  shows "calculate_rsi d period ! t = calculate_rsi d' period ! t"
proof -
  have len: "t < len d" "t < len d'"
    using assms by (simp_all add: agree_upto_def len_def)
  have g: "gain_at d j = gain_at d' j" and l: "loss_at d j = loss_at d' j" if "j \<le> t" for j
    using that agree_upto_nth [OF assms, of j] agree_upto_nth [OF assms, of "j - 1"]
    by (simp_all add: gain_at_def loss_at_def)
  have "agree_upto t (map (\<lambda>j. Fin (gain_at d j)) [0..<len d]) (map (\<lambda>j. Fin (gain_at d' j)) [0..<len d'])"
    using len g by (intro agree_uptoI) simp_all
  then have "avg_gain d period ! t = avg_gain d' period ! t"
    unfolding avg_gain_def gains_upt by (rule rolling_mean_agree)
  moreover
  have "agree_upto t (map (\<lambda>j. Fin (loss_at d j)) [0..<len d]) (map (\<lambda>j. Fin (loss_at d' j)) [0..<len d'])"
    using len l by (intro agree_uptoI) simp_all
  then have "avg_loss d period ! t = avg_loss d' period ! t"
    unfolding avg_loss_def losses_upt by (rule rolling_mean_agree)
  ultimately show ?thesis
    using len by (simp add: calculate_rsi_nth)
qed

lemma pct_change_agree:
  assumes "agree_upto t xs ys"
  shows "pct_change xs ! t = pct_change ys ! t"
  using assms agree_upto_nth [OF assms, of t] agree_upto_nth [OF assms, of "t - 1"]
  by (simp add: pct_change_def agree_upto_def)

text \<open>
  The feature values of row \<open>t\<close> depend on the bars up to \<open>t\<close> only: two frames that
  agree on \<open>Close\<close> and \<open>Volume\<close> up to row \<open>t\<close> have the same feature row \<open>t\<close> after
  \<open>prepare_features\<close>, whatever comes later.
\<close>

lemma features_look_back:
  assumes c: "agree_upto t (Close d) (Close d')" and v: "agree_upto t (Volume d) (Volume d')"
  shows "row (prepared d)
           [''RSI'', ''MACD'', ''Volume_Ratio'', ''MA20'', ''MA50'', ''Price_Change'',
            ''MACD_Histogram''] t =
         row (prepared d')
           [''RSI'', ''MACD'', ''Volume_Ratio'', ''MA20'', ''MA50'', ''Price_Change'',
            ''MACD_Histogram''] t"
proof -
  have len: "t < length (Close d)" "t < length (Close d')" "t < length (Volume d)" "t < length (Volume d')"
    using c v by (simp_all add: agree_upto_def)
  have rsi: "calculate_rsi d 14 ! t = calculate_rsi d' 14 ! t"
    using c by (rule rsi_agree)
  have macd: "series (fst (calculate_macd d 12 26 9)) ! t = series (fst (calculate_macd d' 12 26 9)) ! t"
    using agree_upto_nth [OF macd_agree [OF c, of 12 26 9], of t] len
    by (simp add: series_def len_def)
  have hist: "series (snd (snd (calculate_macd d 12 26 9))) ! t
            = series (snd (snd (calculate_macd d' 12 26 9))) ! t"
    using histogram_agree [OF c, of 12 26 9] len by (simp add: series_def len_def)
  have ma20: "rolling_mean 20 (series (Close d)) ! t = rolling_mean 20 (series (Close d')) ! t"
    using series_agree [OF c] by (rule rolling_mean_agree)
  have ma50: "rolling_mean 50 (series (Close d)) ! t = rolling_mean 50 (series (Close d')) ! t"
    using series_agree [OF c] by (rule rolling_mean_agree)
  have pc: "pct_change (Close d) ! t = pct_change (Close d') ! t"
    using c by (rule pct_change_agree)
  have vma: "rolling_mean 20 (series (Volume d)) ! t = rolling_mean 20 (series (Volume d')) ! t"
    using series_agree [OF v] by (rule rolling_mean_agree)
  have ratio: "fillna 1 (map2 fdiv (series (Volume d)) (rolling_mean 20 (series (Volume d)))) ! t
             = fillna 1 (map2 fdiv (series (Volume d')) (rolling_mean 20 (series (Volume d')))) ! t"
    using len vma agree_upto_nth [OF v, of t] by (simp add: fillna_def series_def)
  from rsi macd hist ma20 ma50 pc ratio show ?thesis
    by (simp add: row_def prepared_iloc)
qed

text \<open>
  C6, at sixty rising closes. \<open>Next_Day_Return\<close> of the last row is null, since no
  next bar exists; the comparison \<open>> 0\<close> turns that null into the label \<open>0\<close>, so
  \<open>Target\<close> is never null, and \<open>dropna\<close> keeps the last row among the rows that go
  into training. The feature columns themselves hold neither \<open>Next_Day_Return\<close> nor
  \<open>Target\<close>.
\<close>

theorem last_row_kept_with_label:
  "isna (iloc (snd (snd (prepare_features (MLPredictor ''DecisionTree'' ()) 0 (\<lambda>_. rising_frame))) 0)
      ''Next_Day_Return'' 59) \<and>
   iloc (snd (snd (prepare_features (MLPredictor ''DecisionTree'' ()) 0 (\<lambda>_. rising_frame))) 0)
      ''Target'' 59 = Fin 0 \<and>
   59 \<in> set (dropna (snd (snd (prepare_features (MLPredictor ''DecisionTree'' ()) 0 (\<lambda>_. rising_frame))) 0)
      (feature_columns (fst (snd (prepare_features (MLPredictor ''DecisionTree'' ()) 0 (\<lambda>_. rising_frame))))
       @ [''Target''])) \<and>
   ''Next_Day_Return'' \<notin> set (feature_columns (fst (snd (prepare_features
      (MLPredictor ''DecisionTree'' ()) 0 (\<lambda>_. rising_frame))))) \<and>
   ''Target'' \<notin> set (feature_columns (fst (snd (prepare_features
      (MLPredictor ''DecisionTree'' ()) 0 (\<lambda>_. rising_frame)))))"
proof -
  have "isna (iloc (prepared rising_frame) ''Next_Day_Return'' (len rising_frame - 1))"
    and "iloc (prepared rising_frame) ''Target'' (len rising_frame - 1) = Fin 0"
    by (rule last_row, simp add: len_rising_frame)+
  then have a: "isna (iloc (prepared rising_frame) ''Next_Day_Return'' 59)"
    and b: "iloc (prepared rising_frame) ''Target'' 59 = Fin 0"
    by (simp_all add: len_rising_frame)
  have rsi: "\<not> isna (calculate_rsi rising_frame 14 ! 59)"
    by (simp add: rising_rsi)
  have pc: "\<not> isna (pct_change (Close rising_frame) ! 59)"
    by (subst pct_change_null) (simp_all add: rising_frame_def new_frame_def close_rising_frame [unfolded rising_frame_def new_frame_def])
  have c: "59 \<in> set (dropna (prepared rising_frame)
            ([''RSI'', ''MACD'', ''Volume_Ratio'', ''MA20'', ''MA50'', ''Price_Change'',
              ''MACD_Histogram'', ''Target'']))"
    using rsi pc by (simp add: dropna_prepared [OF wf_rising_frame] len_rising_frame del: upt_rec_numeral)
  from a b c show ?thesis
    by (simp add: prepare_features_eq)
qed

section \<open>The indicator engine works on the caller's frame\<close>

lemma assign_indicators_other:
  "c \<notin> set indicator_names \<Longrightarrow> columns (assign_indicators d) c = columns d c"
  by (simp add: assign_indicators_columns indicator_names_def)

lemma assign_indicators_defined:
  "c \<in> set indicator_names \<Longrightarrow> columns (assign_indicators d) c \<noteq> None"
  by (auto simp: assign_indicators_columns indicator_names_def)

lemma prepared_other:
  "c \<notin> set indicator_names \<Longrightarrow> c \<notin> set feature_names \<Longrightarrow> columns (prepared d) c = columns d c"
  by (simp add: prepared_columns assign_indicators_columns indicator_names_def feature_names_def)

lemma prepared_defined:
  "c \<in> set indicator_names \<union> set feature_names \<Longrightarrow> columns (prepared d) c \<noteq> None"
  by (auto simp: prepared_columns assign_indicators_columns indicator_names_def feature_names_def)

lemma generate_signals_heap:
  "snd (generate_signals st a h) = h(a := assign_indicators (h a))"
  by (simp add: generate_signals_def add_technical_indicators_def Let_def)

lemma backtest_heap:
  "snd (snd (backtest st a tk h)) = h(a := assign_indicators (h a))"
  by (simp add: backtest_def generate_signals_def add_technical_indicators_def Let_def split_def)

text \<open>
  C9, as the code has it. \<open>add_technical_indicators\<close> returns the reference it was
  given and assigns its nine columns on the frame behind it; \<open>generate_signals\<close> and
  \<open>prepare_features\<close> do so through it, the latter assigning five more columns. On
  that frame \<open>Index\<close>, \<open>Close\<close>, \<open>Volume\<close> and every column of another name stay as
  they were; the assigned columns are there afterwards, whether or not they were before.
  No other frame of the heap changes.
\<close>

theorem indicators_assigned_in_place:
  "fst (add_technical_indicators a h) = a \<and>
   snd (add_technical_indicators a h) = h(a := assign_indicators (h a)) \<and>
   snd (generate_signals st a h) = h(a := assign_indicators (h a)) \<and>
   snd (snd (backtest st a tk h)) = h(a := assign_indicators (h a)) \<and>
   fst (prepare_features p a h) = a \<and>
   snd (snd (prepare_features p a h)) = h(a := prepared (h a)) \<and>
   Close (assign_indicators d) = Close d \<and> Volume (assign_indicators d) = Volume d \<and>
   Index (assign_indicators d) = Index d \<and>
   Close (prepared d) = Close d \<and> Volume (prepared d) = Volume d \<and>
   Index (prepared d) = Index d \<and>
   (\<forall>c. c \<in> set indicator_names \<longrightarrow> columns (assign_indicators d) c \<noteq> None) \<and>
   (\<forall>c. c \<notin> set indicator_names \<longrightarrow> columns (assign_indicators d) c = columns d c) \<and>
   (\<forall>c. c \<in> set indicator_names \<union> set feature_names \<longrightarrow> columns (prepared d) c \<noteq> None) \<and>
   (\<forall>c. c \<notin> set indicator_names \<union> set feature_names \<longrightarrow> columns (prepared d) c = columns d c)"
  using assign_indicators_other [of _ d] assign_indicators_defined [of _ d]
    prepared_other [of _ d] prepared_defined [of _ d]
  by (simp add: add_technical_indicators_def generate_signals_heap backtest_heap
        prepare_features_eq)

lemma columns_rising_frame: "columns rising_frame = Map.empty"
  by (simp add: rising_frame_def new_frame_def)

theorem indicators_assigned_in_place_witness:
  "columns (snd (add_technical_indicators 0 (\<lambda>_. rising_frame)) 0) ''RSI'' \<noteq> None \<and>
   columns (snd (add_technical_indicators 0 (\<lambda>_. rising_frame)) 0) ''Open'' = None \<and>
   snd (add_technical_indicators 0 (\<lambda>_. rising_frame)) 1 = rising_frame"
proof -
  note t = indicators_assigned_in_place
             [of 0 "\<lambda>_. rising_frame" TradingStrategy "''TCS.NS''"
                "MLPredictor ''DecisionTree'' ()" rising_frame]
  from t have heap: "snd (add_technical_indicators 0 (\<lambda>_. rising_frame)) =
      (\<lambda>_. rising_frame)(0 := assign_indicators rising_frame)"
    by blast
  from t have "\<forall>c. c \<in> set indicator_names \<longrightarrow> columns (assign_indicators rising_frame) c \<noteq> None"
    by blast
  then have rsi: "columns (assign_indicators rising_frame) ''RSI'' \<noteq> None"
    by (simp add: indicator_names_def)
  from t have "\<forall>c. c \<notin> set indicator_names \<longrightarrow>
      columns (assign_indicators rising_frame) c = columns rising_frame c"
    by blast
  then have "columns (assign_indicators rising_frame) ''Open'' = columns rising_frame ''Open''"
    by (simp add: indicator_names_def)
  with heap rsi show ?thesis
    by (simp add: columns_rising_frame)
qed

text \<open>The claim that the caller's frame is left unchanged fails: after the call the
  frame behind the caller's reference has the column \<open>RSI\<close> that it did not have, and
  the reference returned is the caller's own.\<close>

theorem caller_frame_mutated_counterexample:
  "fst (add_technical_indicators 0 (\<lambda>_. rising_frame)) = 0 \<and>
   columns rising_frame ''RSI'' = None \<and>
   columns (snd (add_technical_indicators 0 (\<lambda>_. rising_frame)) 0) ''RSI'' \<noteq> None \<and>
   snd (add_technical_indicators 0 (\<lambda>_. rising_frame)) 0 \<noteq> rising_frame \<and>
   snd (generate_signals TradingStrategy 0 (\<lambda>_. rising_frame)) 0 \<noteq> rising_frame \<and>
   snd (snd (prepare_features (MLPredictor ''DecisionTree'' ()) 0 (\<lambda>_. rising_frame))) 0 \<noteq> rising_frame"
proof -
  have none: "columns rising_frame ''RSI'' = None"
    by (simp add: columns_rising_frame)
  have some: "columns (assign_indicators rising_frame) ''RSI'' \<noteq> None"
    by (simp add: assign_indicators_columns)
  have some': "columns (prepared rising_frame) ''RSI'' \<noteq> None"
    by (simp add: prepared_columns assign_indicators_columns)
  from none some have "assign_indicators rising_frame \<noteq> rising_frame" by metis
  moreover from none some' have "prepared rising_frame \<noteq> rising_frame" by metis
  ultimately show ?thesis
    using none some
    by (simp add: add_technical_indicators_def generate_signals_heap prepare_features_eq)
qed

section \<open>What a failed training run leaves behind\<close>

lemma train_model_insufficient:
  assumes "length (dropna (prepared (h a))
             [''RSI'', ''MACD'', ''Volume_Ratio'', ''MA20'', ''MA50'', ''Price_Change'',
              ''MACD_Histogram'', ''Target'']) < 50"
  shows "train_model lib p a h =
           ((False, [LogWarning ''Insufficient data for training'']),
            p\<lparr>feature_columns := [''RSI'', ''MACD'', ''Volume_Ratio'', ''MA20'', ''MA50'',
                                    ''Price_Change'', ''MACD_Histogram'']\<rparr>,
            h(a := prepared (h a)))"
  using assms by (simp add: train_model_def prepare_features_eq)

lemma train_model_sufficient:
  assumes "\<not> length (dropna (prepared (h a))
             [''RSI'', ''MACD'', ''Volume_Ratio'', ''MA20'', ''MA50'', ''Price_Change'',
              ''MACD_Histogram'', ''Target'']) < 50"
    and "training_table (prepared (h a))
             [''RSI'', ''MACD'', ''Volume_Ratio'', ''MA20'', ''MA50'', ''Price_Change'',
              ''MACD_Histogram''] = (X, y)"
    and "p1 = p\<lparr>feature_columns := [''RSI'', ''MACD'', ''Volume_Ratio'', ''MA20'', ''MA50'',
                                    ''Price_Change'', ''MACD_Histogram'']\<rparr>"
    and "h1 = h(a := prepared (h a))"
  shows "train_model lib p a h =
     (case train_test_split lib X y of
        Inl e \<Rightarrow> ((False, [LogError e]), p1, h1)
      | Inr (X_train, X_test, y_train, y_test) \<Rightarrow>
         (case fit_transform lib (scaler p) X_train of
            (sc, Inl e) \<Rightarrow> ((False, [LogError e]), p1\<lparr>scaler := sc\<rparr>, h1)
          | (sc, Inr X_train_scaled) \<Rightarrow>
              (case transform lib sc X_test of
                 Inl e \<Rightarrow> ((False, [LogError e]), p1\<lparr>scaler := sc\<rparr>, h1)
               | Inr X_test_scaled \<Rightarrow>
                   (fst (fit_and_score lib
                          (p1\<lparr>scaler := sc, model := new_model (model_type p) (model p)\<rparr>)
                          X_train X_test X_train_scaled X_test_scaled y_train y_test),
                    snd (fit_and_score lib
                          (p1\<lparr>scaler := sc, model := new_model (model_type p) (model p)\<rparr>)
                          X_train X_test X_train_scaled X_test_scaled y_train y_test),
                    h1))))"
  using assms
  by (simp add: train_model_def prepare_features_eq Let_def split: sum.splits prod.splits)

lemma fit_and_score_accuracy:
  assumes "fit_and_score lib p Xa Xb Xc Xd ya yb = ((False, lg), p')"
    and "LogInfo ''Model trained successfully'' \<notin> set lg"
  shows "accuracy p' = accuracy p"
  using assms
  by (auto simp: fit_and_score_def Let_def split: option.splits classifier.splits prod.splits sum.splits if_splits)


text \<open>
  C8, as the code has it. When fewer than 50 rows remain after \<open>dropna\<close>, training
  logs the warning and returns \<open>False\<close>; no classifier is constructed, and the model,
  the scaler and the accuracy are those of before. When the split or the scaling
  raises, the call returns \<open>False\<close> and the model and the accuracy are those of before.
  Every failed call that has not logged the success line leaves the accuracy as it was.
  (A call that fails in \<open>fit\<close> or later has already assigned a new classifier.)
\<close>

theorem failed_training_before_fit:
  "(length (dropna (prepared (h a))
             [''RSI'', ''MACD'', ''Volume_Ratio'', ''MA20'', ''MA50'', ''Price_Change'',
              ''MACD_Histogram'', ''Target'']) < 50 \<longrightarrow>
      fst (train_model lib p a h) = (False, [LogWarning ''Insufficient data for training'']) \<and>
      model (fst (snd (train_model lib p a h))) = model p \<and>
      accuracy (fst (snd (train_model lib p a h))) = accuracy p \<and>
      scaler (fst (snd (train_model lib p a h))) = scaler p) \<and>
   (50 \<le> length (dropna (prepared (h a))
             [''RSI'', ''MACD'', ''Volume_Ratio'', ''MA20'', ''MA50'', ''Price_Change'',
              ''MACD_Histogram'', ''Target'']) \<and>
    raises_before_fit lib p (prepared (h a)) \<longrightarrow>
      fst (fst (train_model lib p a h)) = False \<and>
      model (fst (snd (train_model lib p a h))) = model p \<and>
      accuracy (fst (snd (train_model lib p a h))) = accuracy p) \<and>
   (fst (fst (train_model lib p a h)) = False \<and>
    LogInfo ''Model trained successfully'' \<notin> set (snd (fst (train_model lib p a h))) \<longrightarrow>
      accuracy (fst (snd (train_model lib p a h))) = accuracy p)"
proof (cases "length (dropna (prepared (h a))
             [''RSI'', ''MACD'', ''Volume_Ratio'', ''MA20'', ''MA50'', ''Price_Change'',
              ''MACD_Histogram'', ''Target'']) < 50")
  case True
  from train_model_insufficient [where h = h and a = a and lib = lib and p = p, OF True] True show ?thesis
    by simp
next
  case False
  obtain X y where tt: "training_table (prepared (h a))
             [''RSI'', ''MACD'', ''Volume_Ratio'', ''MA20'', ''MA50'', ''Price_Change'',
              ''MACD_Histogram''] = (X, y)"
    by (cases "training_table (prepared (h a))
             [''RSI'', ''MACD'', ''Volume_Ratio'', ''MA20'', ''MA50'', ''Price_Change'',
              ''MACD_Histogram'']") blast
  note eq = train_model_sufficient [where h = h and a = a and lib = lib and p = p, OF False tt refl refl]
  have before: "fst (fst (train_model lib p a h)) = False \<and>
      model (fst (snd (train_model lib p a h))) = model p \<and>
      accuracy (fst (snd (train_model lib p a h))) = accuracy p"
    if "raises_before_fit lib p (prepared (h a))"
    using that unfolding eq
    by (auto simp: raises_before_fit_def tt split: sum.splits prod.splits)
  have acc: "accuracy (fst (snd (train_model lib p a h))) = accuracy p"
    if "fst (fst (train_model lib p a h)) = False"
      and "LogInfo ''Model trained successfully'' \<notin> set (snd (fst (train_model lib p a h)))"
  proof (cases "train_test_split lib X y")
    case (Inl e)
    then show ?thesis unfolding eq by simp
  next
    case (Inr r)
    obtain Xa Xb ya yb where r: "r = (Xa, Xb, ya, yb)" by (cases r) auto
    obtain sc res where ft: "fit_transform lib (scaler p) Xa = (sc, res)"
      by (cases "fit_transform lib (scaler p) Xa") auto
    show ?thesis
    proof (cases res)
      case (Inl e)
      with Inr r ft show ?thesis unfolding eq by simp
    next
      case Xs: (Inr Xas)
      show ?thesis
      proof (cases "transform lib sc Xb")
        case (Inl e)
        with Inr r ft Xs show ?thesis unfolding eq by simp
      next
        case Xt: (Inr Xbs)
        let ?q = "p\<lparr>feature_columns := [''RSI'', ''MACD'', ''Volume_Ratio'', ''MA20'', ''MA50'',
                                    ''Price_Change'', ''MACD_Histogram''],
                    scaler := sc, model := new_model (model_type p) (model p)\<rparr>"
        have tm: "train_model lib p a h =
            (fst (fit_and_score lib ?q Xa Xb Xas Xbs ya yb),
             snd (fit_and_score lib ?q Xa Xb Xas Xbs ya yb), h(a := prepared (h a)))"
          using Inr r ft Xs Xt unfolding eq by simp
        obtain ok lg q' where fs': "fit_and_score lib ?q Xa Xb Xas Xbs ya yb = ((ok, lg), q')"
          by (cases "fit_and_score lib ?q Xa Xb Xas Xbs ya yb") auto
        from that tm fs' have "ok = False" and lg: "LogInfo ''Model trained successfully'' \<notin> set lg"
          by simp_all
        with fs' have fs: "fit_and_score lib ?q Xa Xb Xas Xbs ya yb = ((False, lg), q')"
          by simp
        from fit_and_score_accuracy [OF fs lg] have "accuracy q' = accuracy p" by simp
        with fs tm show ?thesis by simp
      qed
    qed
  qed
  from False before acc show ?thesis by auto
qed


lemma falling_window:
  assumes "period \<le> Suc i" and "i < len d" and "0 < i" and "0 < period"
    and "\<forall>j. Suc i - period \<le> j \<and> j \<le> i \<and> 0 < j \<longrightarrow> Close d ! j < Close d ! (j - 1)"
  shows "\<exists>l. 0 < l \<and> avg_loss d period ! i = Fin l"
proof -
  have "Close d ! i < Close d ! (i - 1)"
    using assms by (intro assms(5) [rule_format]) simp
  then have "0 < loss_at d i"
    using assms(3) by (simp add: loss_at_def max_def)
  moreover have "0 \<le> sum_list (map (loss_at d) [Suc i - period..<i])"
    by (intro sum_list_nonneg) (auto simp: loss_at_nonneg)
  moreover have "[Suc i - period..<Suc i] = [Suc i - period..<i] @ [i]"
    using assms by simp
  ultimately have "0 < sum_list (map (loss_at d) [Suc i - period..<Suc i])"
    by simp
  then have "0 < sum_list (map (loss_at d) [Suc i - period..<Suc i]) / real period"
    using assms by simp
  with avg_loss_nth [OF assms(1,2)] show ?thesis by blast
qed

lemma rsi_not_null_with_loss:
  assumes "period \<le> Suc i" and "i < len d" and "avg_loss d period ! i = Fin l" and "0 < l"
  shows "\<not> isna (calculate_rsi d period ! i)"
  using rsi_nth_value [OF assms(1,2)] assms(3,4) by auto

lemma len_falling_frame: "len falling_frame = 100"
  by (simp add: falling_frame_def new_frame_def len_def)

lemma close_falling_frame: "j < 100 \<Longrightarrow> Close falling_frame ! j = 200 - real j"
  by (simp add: falling_frame_def new_frame_def del: upt_rec_numeral)

lemma wf_falling_frame: "wf_frame falling_frame"
  by (simp add: falling_frame_def wf_new_frame)

lemma falling_rsi:
  assumes "13 \<le> i" and "i < 100"
  shows "\<not> isna (calculate_rsi falling_frame 14 ! i)"
proof -
  have "\<forall>j. Suc i - 14 \<le> j \<and> j \<le> i \<and> 0 < j \<longrightarrow>
          Close falling_frame ! j < Close falling_frame ! (j - 1)"
    using assms by (auto simp: close_falling_frame)
  with assms have "\<exists>l. 0 < l \<and> avg_loss falling_frame 14 ! i = Fin l"
    by (intro falling_window) (simp_all add: len_falling_frame)
  then obtain l where "0 < l" and "avg_loss falling_frame 14 ! i = Fin l" by blast
  with assms show ?thesis
    by (intro rsi_not_null_with_loss [of 14 i falling_frame l]) (simp_all add: len_falling_frame)
qed

lemma falling_pct_change:
  assumes "0 < i" and "i < 100"
  shows "pct_change (Close falling_frame) ! i = Fin ((200 - real i) / (201 - real i) - 1)"
proof -
  have "Close falling_frame ! i = 200 - real i" "Close falling_frame ! (i - 1) = 201 - real i"
    using assms by (simp_all add: close_falling_frame of_nat_diff)
  moreover have "length (Close falling_frame) = 100"
    using len_falling_frame by (simp add: len_def)
  ultimately show ?thesis
    using assms by (simp add: pct_change_def fsub_def)
qed

lemma filter_from_upt: "filter (\<lambda>i. k \<le> i) [0..<n] = [k..<n]"
proof (induction n)
  case 0
  then show ?case by simp
next
  case (Suc n)
  then show ?case by (cases "k \<le> n") (simp_all add: upt_conv_Nil)
qed

lemma dropna_falling:
  "dropna (prepared falling_frame)
     [''RSI'', ''MACD'', ''Volume_Ratio'', ''MA20'', ''MA50'', ''Price_Change'',
      ''MACD_Histogram'', ''Target''] = [49..<100]"
proof -
  have "filter (\<lambda>i. 49 \<le> i \<and> \<not> isna (calculate_rsi falling_frame 14 ! i) \<and>
                  \<not> isna (pct_change (Close falling_frame) ! i)) [0..<100]
        = filter (\<lambda>i. 49 \<le> i) [0..<100]"
    by (rule filter_cong) (auto simp: falling_rsi falling_pct_change simp del: upt_rec_numeral)
  then show ?thesis
    by (simp add: dropna_prepared [OF wf_falling_frame] len_falling_frame filter_from_upt
          del: upt_rec_numeral)
qed

lemma falling_targets:
  assumes "i < 100"
  shows "iloc (prepared falling_frame) ''Target'' i = Fin 0"
proof -
  have len: "length (Close falling_frame) = 100"
    using len_falling_frame by (simp add: len_def)
  have "\<not> fgt (shift_up (pct_change (Close falling_frame)) ! i) (Fin 0)"
  proof (cases "Suc i < 100")
    case True
    then have "shift_up (pct_change (Close falling_frame)) ! i =
        Fin ((200 - real (Suc i)) / (201 - real (Suc i)) - 1)"
      using assms len falling_pct_change [of "Suc i"] by (simp add: shift_up_def)
    moreover have "(200 - real (Suc i)) / (201 - real (Suc i)) - 1 \<le> 0"
      using True by (simp add: field_simps)
    ultimately show ?thesis by (simp add: fgt_def)
  next
    case False
    with assms len show ?thesis by (simp add: shift_up_def fgt_def)
  qed
  with assms len show ?thesis
    by (simp add: prepared_iloc gt0_as_int_def)
qed

lemma falling_table:
  "\<exists>X. training_table (prepared falling_frame)
          [''RSI'', ''MACD'', ''Volume_Ratio'', ''MA20'', ''MA50'', ''Price_Change'',
           ''MACD_Histogram''] = (X, replicate 51 (Fin 0)) \<and> length X = 51"
proof -
  have "map (iloc (prepared falling_frame) ''Target'') [49..<100] = map (\<lambda>_. Fin 0) [49..<100]"
    by (rule map_cong) (simp_all add: falling_targets del: upt_rec_numeral)
  also have "\<dots> = replicate 51 (Fin 0)"
    by (simp add: map_replicate_const del: upt_rec_numeral)
  finally show ?thesis
    using dropna_falling by (simp add: training_table_def Let_def del: upt_rec_numeral)
qed


lemma single_class_zeros: "single_class (replicate n (Fin 0))"
  by (simp add: single_class_def list_all_iff)

text \<open>
  The claim that every failed call leaves the previous model untouched fails. A
  predictor of type logistic regression holds a fitted model; it is trained again on a
  hundred falling closes. All labels are \<open>0\<close>, 51 rows remain, the split and the scaler
  succeed, the new classifier is assigned to \<open>self.model\<close>, and its \<open>fit\<close> raises on
  the single class: the call returns \<open>False\<close>, the model is the new unfitted
  classifier, and the scaler has been fitted once more.
\<close>

theorem failed_fit_replaces_model_counterexample:
  "fst (train_model demo_sklearn trained_predictor 0 (\<lambda>_. falling_frame))
     = (False, [LogError ValueError]) \<and>
   model trained_predictor = Some (Classifier (LogisticRegression 42 1000) (Some 35)) \<and>
   model (fst (snd (train_model demo_sklearn trained_predictor 0 (\<lambda>_. falling_frame))))
     = Some (Classifier (LogisticRegression 42 1000) None) \<and>
   scaler trained_predictor = 1 \<and>
   scaler (fst (snd (train_model demo_sklearn trained_predictor 0 (\<lambda>_. falling_frame)))) = 2"
proof -
  obtain X where tt: "training_table (prepared falling_frame)
          [''RSI'', ''MACD'', ''Volume_Ratio'', ''MA20'', ''MA50'', ''Price_Change'',
           ''MACD_Histogram''] = (X, replicate 51 (Fin 0))" and X: "length X = 51"
    using falling_table by blast
  have enough: "\<not> length (dropna (prepared ((\<lambda>_. falling_frame) 0))
             [''RSI'', ''MACD'', ''Volume_Ratio'', ''MA20'', ''MA50'', ''Price_Change'',
              ''MACD_Histogram'', ''Target'']) < 50"
    by (simp add: dropna_falling del: upt_rec_numeral)
  have tt': "training_table (prepared ((\<lambda>_. falling_frame) 0))
          [''RSI'', ''MACD'', ''Volume_Ratio'', ''MA20'', ''MA50'', ''Price_Change'',
           ''MACD_Histogram''] = (X, replicate 51 (Fin 0))"
    using tt by simp
  note eq = train_model_sufficient
     [where h = "\<lambda>_. falling_frame" and a = 0 and lib = demo_sklearn and p = trained_predictor,
      OF enough tt' refl refl]
  show ?thesis
    unfolding eq
    by (simp add: demo_sklearn_def trained_predictor_def new_model_def fit_and_score_def
          single_class_zeros Let_def X)
qed


lemma dropna_short:
  assumes "wf_frame d"
  shows "length (dropna (prepared d)
            [''RSI'', ''MACD'', ''Volume_Ratio'', ''MA20'', ''MA50'', ''Price_Change'',
             ''MACD_Histogram'', ''Target'']) \<le> len d - 49"
proof -
  let ?Q = "\<lambda>i. \<not> isna (calculate_rsi d 14 ! i) \<and> \<not> isna (pct_change (Close d) ! i)"
  have "filter (\<lambda>i. 49 \<le> i \<and> ?Q i) [0..<len d] = filter ?Q (filter (\<lambda>i. 49 \<le> i) [0..<len d])"
    by (simp add: conj_commute)
  also have "\<dots> = filter ?Q [49..<len d]"
    by (simp only: filter_from_upt)
  finally have "length (filter (\<lambda>i. 49 \<le> i \<and> ?Q i) [0..<len d]) \<le> length [49..<len d]"
    by (simp only: length_filter_le)
  then show ?thesis
    by (simp add: dropna_prepared [OF assms])
qed

theorem failed_training_before_fit_witness:
  "fst (train_model demo_sklearn trained_predictor 0 (\<lambda>_. rising_frame))
     = (False, [LogWarning ''Insufficient data for training'']) \<and>
   model (fst (snd (train_model demo_sklearn trained_predictor 0 (\<lambda>_. rising_frame))))
     = model trained_predictor \<and>
   fst (fst (train_model split_fails trained_predictor 0 (\<lambda>_. falling_frame))) = False \<and>
   model (fst (snd (train_model split_fails trained_predictor 0 (\<lambda>_. falling_frame))))
     = model trained_predictor"
proof -
  have "length (dropna (prepared rising_frame)
            [''RSI'', ''MACD'', ''Volume_Ratio'', ''MA20'', ''MA50'', ''Price_Change'',
             ''MACD_Histogram'', ''Target'']) \<le> len rising_frame - 49"
    by (rule dropna_short [OF wf_rising_frame])
  then have few: "length (dropna (prepared ((\<lambda>_. rising_frame) (0::nat)))
            [''RSI'', ''MACD'', ''Volume_Ratio'', ''MA20'', ''MA50'', ''Price_Change'',
             ''MACD_Histogram'', ''Target'']) < 50"
    by (simp add: len_rising_frame)
  have enough: "50 \<le> length (dropna (prepared ((\<lambda>_. falling_frame) (0::nat)))
            [''RSI'', ''MACD'', ''Volume_Ratio'', ''MA20'', ''MA50'', ''Price_Change'',
             ''MACD_Histogram'', ''Target''])"
    by (simp add: dropna_falling del: upt_rec_numeral)
  have raises: "raises_before_fit split_fails trained_predictor (prepared ((\<lambda>_. falling_frame) (0::nat)))"
    by (simp add: raises_before_fit_def split_fails_def split_def)
  from few failed_training_before_fit
         [of "\<lambda>_. rising_frame" 0 demo_sklearn trained_predictor]
       enough raises failed_training_before_fit
         [of "\<lambda>_. falling_frame" 0 split_fails trained_predictor]
  show ?thesis by blast
qed

end
